theory Spec2Isabelle
  imports Main
begin

section \<open>The custodial ledger of the HKDC exchange\<close>

text \<open>
  The development follows \<^verbatim>\<open>models.py\<close>, \<^verbatim>\<open>crud.py\<close> and the request handlers of
  \<^verbatim>\<open>main.py\<close>.

  \<^item> Balances and amounts are Python floats (\<^verbatim>\<open>Column(Float)\<close>, \<^verbatim>\<open>amount: float\<close>).
    The rows are parametric in the number type \<open>'a\<close>, and the functions use only the
    operations the code applies to it (\<open>+\<close>, unary \<open>-\<close>, \<open><\<close>). The type \<open>pyfloat\<close>
    gives these operations the arithmetic of the code, IEEE binary64 with rounding to
    nearest, ties to even; what a statement says about stored amounts is said over it.
  \<^item> A table is the list of its rows in storage order; \<^verbatim>\<open>query.filter(p).first()\<close> is
    the first row satisfying \<open>p\<close>, and an attribute assignment on the object so
    obtained followed by \<^verbatim>\<open>db.commit()\<close> rewrites that row.
  \<^item> Each \<^verbatim>\<open>db.commit()\<close> and each call of the chain gateway is written to a journal,
    in program order, so that the order of the effects of a handler can be stated.
  \<^item> Of the column constraints of \<^verbatim>\<open>models.py\<close>, the unique \<^verbatim>\<open>tx_hash\<close> is the one no
    code checks before it writes: \<open>create_transaction\<close> refuses a repeated hash as the
    engine does. The constraints on the users table, which the code checks itself,
    appear as the predicate \<open>wf_db\<close> on states. Other errors of the database engine
    are outside the model.
\<close>

subsection \<open>Rows (models.py)\<close>

record user =
  u_id :: int
  email :: string
  full_name :: "string option"
  identity_card_number :: "string option"
  hashed_password :: string
  u_status :: string

record 'a account =
  a_id :: int
  balance :: 'a
  user_id :: int

record 'a transaction =
  t_id :: int
  initiator_user_id :: int
  recipient_user_id :: "int option"
  initiator_web3_address :: "string option"
  recipient_web3_address :: "string option"
  bank_account_id :: "int option"
  t_type :: string
  amount :: 'a
  tx_hash :: "string option"
  t_status :: string
  completed_at :: "nat option"

record bank_account =
  b_id :: int
  account_name :: string
  bank_name :: string
  card_number :: string
  b_user_id :: int

record withdrawal_whitelist =
  w_id :: int
  address :: string
  label :: string
  w_status :: string
  frozen_at :: "nat option"

record 'a db =
  users :: "user list"
  accounts :: "'a account list"
  transactions :: "'a transaction list"
  bank_accounts :: "bank_account list"
  whitelist :: "withdrawal_whitelist list"

text \<open>
  An effect visible outside the handler: a commit, with the tables as committed, or a
  call of \<^verbatim>\<open>blockchain_service.transfer_hkdc\<close> with its two arguments.
\<close>

datatype 'a effect = Commit "'a db" | Transfer_hkdc string 'a

record 'a session =
  tables :: "'a db"
  journal :: "'a effect list"

subsection \<open>Exceptions, requests and responses\<close>

datatype exn = Exn (exn_class: string) (exn_str: string)

datatype failure = HTTPException (status_code: int) (detail: string) | Unhandled exn

datatype 'a response =
    Message string
  | Message_tx_hash string string
  | Message_new_balance string 'a
  | User_model user

record user_create =
  uc_email :: string
  uc_password :: string

record kyc_submit =
  kyc_full_name :: string
  kyc_identity_card_number :: string

record 'a deposit_bank_request =
  dep_amount :: 'a

record 'a transfer_request =
  recipient_email :: string
  tr_amount :: 'a

record 'a withdraw_bank_request =
  wb_amount :: 'a
  wb_bank_account_id :: int

record 'a withdraw_web3_request =
  wd_amount :: 'a
  recipient_address :: string

record bank_account_create =
  bc_account_name :: string
  bc_bank_name :: string
  bc_card_number :: string

record whitelist_address_create =
  wc_label :: string
  wc_address :: string

record receipt =
  transactionHash :: string

subsection \<open>Python floats\<close>

text \<open>
  A Python float is an IEEE binary64 number. \<open>Finite m e\<close> is the number \<open>m * 2 ^ e\<close>
  in its one binary64 form: \<open>2 ^ 52 \<le> \<bar>m\<bar> < 2 ^ 53\<close> and \<open>- 1074 \<le> e \<le> 971\<close> for a normal
  number, \<open>\<bar>m\<bar> < 2 ^ 52\<close> and \<open>e = - 1074\<close> for a subnormal one and for zero (the sign of
  zero, which no operation below can observe, is not kept). \<open>round_to_double k e\<close> is
  the float nearest to the exact number \<open>k * 2 ^ e\<close>, ties going to the even mantissa,
  and an infinity beyond the largest float; every arithmetic operation of Python
  returns its exact result rounded in this way.
\<close>

datatype pyfloat = Finite int int | PosInf | NegInf | NaN

function bit_length :: "int \<Rightarrow> int" where
  "bit_length k = (if k \<le> 0 then 0 else 1 + bit_length (k div 2))"
  by pat_completeness auto
termination
  by (relation "measure nat") auto

declare bit_length.simps [simp del]

definition round_to_double :: "int \<Rightarrow> int \<Rightarrow> pyfloat" where
  "round_to_double k e =
     (if k = 0 then Finite 0 (- 1074)
      else
        let n = bit_length \<bar>k\<bar>;
            t = max (e + n - 53) (- 1074)
        in if t \<le> e
           then (if 971 < t then (if 0 < k then PosInf else NegInf)
                 else Finite (k * 2 ^ nat (e - t)) t)
           else
             let s = nat (t - e);
                 q = \<bar>k\<bar> div 2 ^ s;
                 r = \<bar>k\<bar> mod 2 ^ s;
                 q' = (if 2 ^ (s - 1) < r \<or> (r = 2 ^ (s - 1) \<and> odd q) then q + 1 else q);
                 m = (if q' = 2 ^ 53 then 2 ^ 52 else q');
                 t' = (if q' = 2 ^ 53 then t + 1 else t)
             in if 971 < t' then (if 0 < k then PosInf else NegInf)
                else Finite (if 0 < k then m else - m) t')"

text \<open>The exact sum of two dyadic numbers, at the smaller of the two exponents.\<close>

definition dyadic_sum :: "int \<Rightarrow> int \<Rightarrow> int \<Rightarrow> int \<Rightarrow> int \<times> int" where
  "dyadic_sum m1 e1 m2 e2 =
     (m1 * 2 ^ nat (e1 - min e1 e2) + m2 * 2 ^ nat (e2 - min e1 e2), min e1 e2)"

fun float_add :: "pyfloat \<Rightarrow> pyfloat \<Rightarrow> pyfloat" where
  "float_add (Finite m1 e1) (Finite m2 e2) =
     (case dyadic_sum m1 e1 m2 e2 of (k, e) \<Rightarrow> round_to_double k e)"
| "float_add NaN _ = NaN"
| "float_add _ NaN = NaN"
| "float_add PosInf NegInf = NaN"
| "float_add NegInf PosInf = NaN"
| "float_add PosInf _ = PosInf"
| "float_add _ PosInf = PosInf"
| "float_add NegInf _ = NegInf"
| "float_add _ NegInf = NegInf"

fun float_neg :: "pyfloat \<Rightarrow> pyfloat" where
  "float_neg (Finite m e) = Finite (- m) e"
| "float_neg PosInf = NegInf"
| "float_neg NegInf = PosInf"
| "float_neg NaN = NaN"

fun float_lt :: "pyfloat \<Rightarrow> pyfloat \<Rightarrow> bool" where
  "float_lt (Finite m1 e1) (Finite m2 e2) =
     (m1 * 2 ^ nat (e1 - min e1 e2) < m2 * 2 ^ nat (e2 - min e1 e2))"
| "float_lt NaN _ = False"
| "float_lt _ NaN = False"
| "float_lt _ NegInf = False"
| "float_lt PosInf _ = False"
| "float_lt NegInf _ = True"
| "float_lt _ PosInf = True"

fun float_le :: "pyfloat \<Rightarrow> pyfloat \<Rightarrow> bool" where
  "float_le (Finite m1 e1) (Finite m2 e2) =
     (m1 * 2 ^ nat (e1 - min e1 e2) \<le> m2 * 2 ^ nat (e2 - min e1 e2))"
| "float_le NaN _ = False"
| "float_le _ NaN = False"
| "float_le NegInf _ = True"
| "float_le _ PosInf = True"
| "float_le _ NegInf = False"
| "float_le PosInf _ = False"

fun float_mul :: "pyfloat \<Rightarrow> pyfloat \<Rightarrow> pyfloat" where
  "float_mul (Finite m1 e1) (Finite m2 e2) = round_to_double (m1 * m2) (e1 + e2)"
| "float_mul NaN _ = NaN"
| "float_mul _ NaN = NaN"
| "float_mul (Finite m e) PosInf = (if m = 0 then NaN else if 0 < m then PosInf else NegInf)"
| "float_mul (Finite m e) NegInf = (if m = 0 then NaN else if 0 < m then NegInf else PosInf)"
| "float_mul PosInf (Finite m e) = (if m = 0 then NaN else if 0 < m then PosInf else NegInf)"
| "float_mul NegInf (Finite m e) = (if m = 0 then NaN else if 0 < m then NegInf else PosInf)"
| "float_mul PosInf PosInf = PosInf"
| "float_mul NegInf NegInf = PosInf"
| "float_mul PosInf NegInf = NegInf"
| "float_mul NegInf PosInf = NegInf"

text \<open>
  \<open>float_of_int\<close> is the conversion Python applies to the integer operand of
  \<^verbatim>\<open>float * int\<close>, \<open>int_of_float\<close> is \<^verbatim>\<open>int(x)\<close>, which truncates towards zero.
\<close>

definition float_of_int :: "int \<Rightarrow> exn + pyfloat" where
  "float_of_int i =
     (case round_to_double i 0 of
        Finite m e \<Rightarrow> Inr (Finite m e)
      | _ \<Rightarrow> Inl (Exn ''OverflowError'' ''int too large to convert to float''))"

definition truncate_dyadic :: "int \<Rightarrow> int \<Rightarrow> int" where
  "truncate_dyadic m e =
     (if 0 \<le> e then m * 2 ^ nat e
      else if 0 \<le> m then m div 2 ^ nat (- e)
      else - ((- m) div 2 ^ nat (- e)))"

fun int_of_float :: "pyfloat \<Rightarrow> exn + int" where
  "int_of_float (Finite m e) = Inr (truncate_dyadic m e)"
| "int_of_float NaN = Inl (Exn ''ValueError'' ''cannot convert float NaN to integer'')"
| "int_of_float _ = Inl (Exn ''OverflowError'' ''cannot convert float infinity to integer'')"

instantiation pyfloat :: "{zero, plus, uminus, ord}"
begin

definition zero_pyfloat :: pyfloat where
  "zero_pyfloat = Finite 0 (- 1074)"

definition plus_pyfloat :: "pyfloat \<Rightarrow> pyfloat \<Rightarrow> pyfloat" where
  "plus_pyfloat a b = float_add a b"

definition uminus_pyfloat :: "pyfloat \<Rightarrow> pyfloat" where
  "uminus_pyfloat a = float_neg a"

definition less_eq_pyfloat :: "pyfloat \<Rightarrow> pyfloat \<Rightarrow> bool" where
  "less_eq_pyfloat a b = float_le a b"

definition less_pyfloat :: "pyfloat \<Rightarrow> pyfloat \<Rightarrow> bool" where
  "less_pyfloat a b = float_lt a b"

instance ..

end

text \<open>
  When the exact number \<open>k * 2 ^ e\<close> needs no more than the 53 bits of a mantissa at the
  exponent rounding would give it, it is a float; \<open>same_dyadic m t k e\<close> says that
  \<open>m * 2 ^ t\<close> and \<open>k * 2 ^ e\<close> are the same number.
\<close>

definition representable :: "int \<Rightarrow> int \<Rightarrow> bool" where
  "representable k e \<longleftrightarrow>
     (let t = max (e + bit_length \<bar>k\<bar> - 53) (- 1074)
      in t \<le> 971 \<and> (t \<le> e \<or> 2 ^ nat (t - e) dvd k))"

definition same_dyadic :: "int \<Rightarrow> int \<Rightarrow> int \<Rightarrow> int \<Rightarrow> bool" where
  "same_dyadic m t k e \<longleftrightarrow>
     m * 2 ^ nat (t - min t e) = k * 2 ^ nat (e - min t e)"

subsection \<open>Queries and writes (crud.py)\<close>

fun update_first :: "('r \<Rightarrow> bool) \<Rightarrow> ('r \<Rightarrow> 'r) \<Rightarrow> 'r list \<Rightarrow> 'r list" where
  "update_first p f [] = []"
| "update_first p f (r # rs) = (if p r then f r # rs else r # update_first p f rs)"

definition next_id :: "int list \<Rightarrow> int" where
  "next_id ids = fold max ids 0 + 1"

definition commit :: "'a session \<Rightarrow> 'a session" where
  "commit db = db\<lparr>journal := journal db @ [Commit (tables db)]\<rparr>"

definition get_user_by_email :: "'a session \<Rightarrow> string \<Rightarrow> user option" where
  "get_user_by_email db e = find (\<lambda>u. email u = e) (users (tables db))"

text \<open>
  \<open>get_user_by_id\<close> is the query by primary key that \<^verbatim>\<open>submit_kyc_info\<close> writes
  inline.
\<close>

definition get_user_by_id :: "'a session \<Rightarrow> int \<Rightarrow> user option" where
  "get_user_by_id db uid = find (\<lambda>u. u_id u = uid) (users (tables db))"

definition get_account_by_user_id :: "'a session \<Rightarrow> int \<Rightarrow> 'a account option" where
  "get_account_by_user_id db uid = find (\<lambda>a. user_id a = uid) (accounts (tables db))"

definition get_bank_accounts_by_user_id :: "'a session \<Rightarrow> int \<Rightarrow> bank_account list" where
  "get_bank_accounts_by_user_id db uid = filter (\<lambda>b. b_user_id b = uid) (bank_accounts (tables db))"

definition get_whitelist_address_by_address ::
  "'a session \<Rightarrow> string \<Rightarrow> withdrawal_whitelist option" where
  "get_whitelist_address_by_address db addr = find (\<lambda>w. address w = addr) (whitelist (tables db))"

text \<open>
  \<open>create_user\<close> commits the user, then the account; the hash of the password comes
  from \<^verbatim>\<open>security.get_password_hash\<close>, a parameter here.
\<close>

definition create_user ::
  "(string \<Rightarrow> string) \<Rightarrow> 'a::zero session \<Rightarrow> user_create \<Rightarrow> 'a session \<times> user" where
  "create_user get_password_hash db user =
     (let db_user = \<lparr>u_id = next_id (map u_id (users (tables db))),
                     email = uc_email user,
                     full_name = None,
                     identity_card_number = None,
                     hashed_password = get_password_hash (uc_password user),
                     u_status = ''unverified''\<rparr>;
          db1 = commit (db\<lparr>tables := (tables db)\<lparr>users := users (tables db) @ [db_user]\<rparr>\<rparr>);
          db_account = \<lparr>a_id = next_id (map a_id (accounts (tables db1))),
                        balance = 0,
                        user_id = u_id db_user\<rparr>;
          db2 = commit (db1\<lparr>tables := (tables db1)\<lparr>accounts :=
                  accounts (tables db1) @ [db_account]\<rparr>\<rparr>)
      in (db2, db_user))"

definition submit_kyc_info ::
  "'a session \<Rightarrow> int \<Rightarrow> kyc_submit \<Rightarrow> 'a session \<times> (exn + user option)" where
  "submit_kyc_info db uid kyc_data =
     (case get_user_by_id db uid of
        None \<Rightarrow> (db, Inr None)
      | Some db_user \<Rightarrow>
          if (case find (\<lambda>u. identity_card_number u = Some (kyc_identity_card_number kyc_data))
                     (users (tables db)) of
                None \<Rightarrow> False
              | Some existing_user_by_id_card \<Rightarrow> u_id existing_user_by_id_card \<noteq> uid)
          then (db, Inl (Exn ''ValueError''
                  ''Identity card number is already registered by another user.''))
          else
            let db_user' = db_user\<lparr>full_name := Some (kyc_full_name kyc_data),
                                   identity_card_number := Some (kyc_identity_card_number kyc_data),
                                   u_status := ''active''\<rparr>;
                db' = commit (db\<lparr>tables := (tables db)\<lparr>users :=
                        update_first (\<lambda>u. u_id u = uid) (\<lambda>_. db_user') (users (tables db))\<rparr>\<rparr>)
            in (db', Inr (Some db_user')))"

definition update_balance ::
  "'a::plus session \<Rightarrow> int \<Rightarrow> 'a \<Rightarrow> 'a session \<times> 'a account option" where
  "update_balance db uid amt =
     (case get_account_by_user_id db uid of
        None \<Rightarrow> (db, None)
      | Some account \<Rightarrow>
          let account' = account\<lparr>balance := balance account + amt\<rparr>;
              db' = commit (db\<lparr>tables := (tables db)\<lparr>accounts :=
                      update_first (\<lambda>a. user_id a = uid) (\<lambda>_. account') (accounts (tables db))\<rparr>\<rparr>)
          in (db', Some account'))"

text \<open>
  The arguments of \<open>create_transaction\<close> come in the order of the Python signature; the
  clock value \<open>now\<close> stands for \<^verbatim>\<open>datetime.utcnow()\<close>. The primary key is the one the
  engine assigns (one more than the largest in the table). The column \<^verbatim>\<open>tx_hash\<close> is
  declared unique (\<^verbatim>\<open>models.py\<close>): a row whose hash is already in the table makes the
  flush of \<^verbatim>\<open>db.commit()\<close> fail with \<^verbatim>\<open>IntegrityError\<close>, and nothing is written. Rows
  without a hash are never refused.
\<close>

definition integrity_error :: exn where
  "integrity_error = Exn ''IntegrityError'' ''UNIQUE constraint failed: transactions.tx_hash''"

definition create_transaction ::
  "'a session \<Rightarrow> nat \<Rightarrow> int \<Rightarrow> string \<Rightarrow> 'a \<Rightarrow> string \<Rightarrow> int option \<Rightarrow> string option \<Rightarrow>
     string option \<Rightarrow> string option \<Rightarrow> int option \<Rightarrow>
     'a session \<times> (exn + 'a transaction)" where
  "create_transaction db now initiator typ amt status recipient initiator_web3 recipient_web3
       hash bank_account =
     (let db_transaction =
            \<lparr>t_id = next_id (map t_id (transactions (tables db))),
             initiator_user_id = initiator,
             recipient_user_id = recipient,
             initiator_web3_address = initiator_web3,
             recipient_web3_address = recipient_web3,
             bank_account_id = bank_account,
             t_type = typ,
             amount = amt,
             tx_hash = hash,
             t_status = status,
             completed_at = (if status = ''completed'' then Some now else None)\<rparr>;
          db' = commit (db\<lparr>tables := (tables db)\<lparr>transactions :=
                  transactions (tables db) @ [db_transaction]\<rparr>\<rparr>)
      in if hash \<noteq> None \<and> hash \<in> set (map tx_hash (transactions (tables db)))
         then (db, Inl integrity_error)
         else (db', Inr db_transaction))"

text \<open>The remaining writes of \<^verbatim>\<open>crud.py\<close>.\<close>

definition update_user_status :: "'a session \<Rightarrow> int \<Rightarrow> string \<Rightarrow> 'a session \<times> user option" where
  "update_user_status db uid status =
     (case get_user_by_id db uid of
        None \<Rightarrow> (db, None)
      | Some db_user \<Rightarrow>
          let db_user' = db_user\<lparr>u_status := status\<rparr>;
              db' = commit (db\<lparr>tables := (tables db)\<lparr>users :=
                      update_first (\<lambda>u. u_id u = uid) (\<lambda>_. db_user') (users (tables db))\<rparr>\<rparr>)
          in (db', Some db_user'))"

definition create_bank_account ::
  "'a session \<Rightarrow> bank_account_create \<Rightarrow> int \<Rightarrow> 'a session \<times> bank_account" where
  "create_bank_account db bank_account uid =
     (let db_bank_account =
            \<lparr>b_id = next_id (map b_id (bank_accounts (tables db))),
             account_name = bc_account_name bank_account,
             bank_name = bc_bank_name bank_account,
             card_number = bc_card_number bank_account,
             b_user_id = uid\<rparr>;
          db' = commit (db\<lparr>tables := (tables db)\<lparr>bank_accounts :=
                  bank_accounts (tables db) @ [db_bank_account]\<rparr>\<rparr>)
      in (db', db_bank_account))"

definition add_to_whitelist ::
  "'a session \<Rightarrow> whitelist_address_create \<Rightarrow> 'a session \<times> withdrawal_whitelist" where
  "add_to_whitelist db whitelist_data =
     (let db_address =
            \<lparr>w_id = next_id (map w_id (whitelist (tables db))),
             address = wc_address whitelist_data,
             label = wc_label whitelist_data,
             w_status = ''normal'',
             frozen_at = None\<rparr>;
          db' = commit (db\<lparr>tables := (tables db)\<lparr>whitelist :=
                  whitelist (tables db) @ [db_address]\<rparr>\<rparr>)
      in (db', db_address))"

definition update_whitelist_address_status ::
  "'a session \<Rightarrow> nat \<Rightarrow> int \<Rightarrow> string \<Rightarrow> 'a session \<times> withdrawal_whitelist option" where
  "update_whitelist_address_status db now address_id status =
     (case find (\<lambda>w. w_id w = address_id) (whitelist (tables db)) of
        None \<Rightarrow> (db, None)
      | Some db_address \<Rightarrow>
          let db_address' = db_address\<lparr>w_status := status,
                                       frozen_at := (if status = ''frozen'' then Some now else None)\<rparr>;
              db' = commit (db\<lparr>tables := (tables db)\<lparr>whitelist :=
                      update_first (\<lambda>w. w_id w = address_id) (\<lambda>_. db_address')
                        (whitelist (tables db))\<rparr>\<rparr>)
          in (db', Some db_address'))"

subsection \<open>Request handlers (main.py)\<close>

text \<open>
  \<open>get_current_user\<close> receives the subject of the decoded token (\<open>None\<close> when the
  payload has no \<^verbatim>\<open>sub\<close>); decoding itself belongs to the token library.
\<close>

definition credentials_exception :: failure where
  "credentials_exception = HTTPException 401 ''Could not validate credentials''"

definition get_current_user :: "'a session \<Rightarrow> string option \<Rightarrow> failure + user" where
  "get_current_user db sub =
     (case sub of
        None \<Rightarrow> Inl credentials_exception
      | Some e \<Rightarrow>
          (case get_user_by_email db e of
             None \<Rightarrow> Inl credentials_exception
           | Some u \<Rightarrow> Inr u))"

definition register_user ::
  "(string \<Rightarrow> string) \<Rightarrow> 'a::zero session \<Rightarrow> user_create \<Rightarrow>
     'a session \<times> (failure + 'a response)" where
  "register_user get_password_hash db user =
     (case get_user_by_email db (uc_email user) of
        Some _ \<Rightarrow> (db, Inl (HTTPException 400 ''Email already registered''))
      | None \<Rightarrow>
          let (db', db_user) = create_user get_password_hash db user
          in (db', Inr (User_model db_user)))"

definition submit_kyc ::
  "'a session \<Rightarrow> kyc_submit \<Rightarrow> user \<Rightarrow> 'a session \<times> (failure + 'a response)" where
  "submit_kyc db kyc_data current_user =
     (if u_status current_user = ''active''
      then (db, Inl (HTTPException 400 ''User is already active.''))
      else
        (case submit_kyc_info db (u_id current_user) kyc_data of
           (db', Inl e) \<Rightarrow>
             if exn_class e = ''ValueError''
             then (db', Inl (HTTPException 400 (exn_str e)))
             else (db', Inl (Unhandled e))
         | (db', Inr None) \<Rightarrow> (db', Inl (HTTPException 404 ''User not found.''))
         | (db', Inr (Some updated_user)) \<Rightarrow> (db', Inr (User_model updated_user))))"

definition confirm_alipay_deposit ::
  "nat \<Rightarrow> 'a::plus session \<Rightarrow> 'a deposit_bank_request \<Rightarrow> user \<Rightarrow>
     'a session \<times> (failure + 'a response)" where
  "confirm_alipay_deposit now db request current_user =
     (if u_status current_user \<noteq> ''active''
      then (db, Inl (HTTPException 403 ''User is not active.''))
      else
        let (db1, updated_account) = update_balance db (u_id current_user) (dep_amount request);
            (db2, _) = create_transaction db1 now (u_id current_user) ''deposit_alipay''
                         (dep_amount request) ''completed'' None None None None None
        in (case updated_account of
              None \<Rightarrow> (db2, Inl (Unhandled (Exn ''AttributeError''
                          (CHR 0x27 # ''NoneType'' @ CHR 0x27 # '' object has no attribute '' @
                           CHR 0x27 # ''balance'' @ [CHR 0x27]))))
            | Some a \<Rightarrow>
                (db2, Inr (Message_new_balance ''Alipay deposit successful and credited.''
                             (balance a)))))"

definition confirm_web3_deposit ::
  "nat \<Rightarrow> 'a::plus session \<Rightarrow> 'a deposit_bank_request \<Rightarrow> user \<Rightarrow>
     'a session \<times> (failure + 'a response)" where
  "confirm_web3_deposit now db req user =
     (let (db1, _) = update_balance db (u_id user) (dep_amount req);
          (db2, _) = create_transaction db1 now (u_id user) ''deposit_web3''
                       (dep_amount req) ''completed'' None None None None None
      in (db2, Inr (Message ''Web3 deposit confirmed'')))"

definition internal_transfer ::
  "nat \<Rightarrow> 'a::{plus,uminus,ord} session \<Rightarrow> 'a transfer_request \<Rightarrow> user \<Rightarrow>
     'a session \<times> (failure + 'a response)" where
  "internal_transfer now db request current_user =
     (if u_status current_user \<noteq> ''active''
      then (db, Inl (HTTPException 403 ''Your account is not active. Please complete KYC.''))
      else if (case get_account_by_user_id db (u_id current_user) of
                 None \<Rightarrow> True
               | Some sender_account \<Rightarrow> balance sender_account < tr_amount request)
      then (db, Inl (HTTPException 400 ''Insufficient balance''))
      else if recipient_email request = email current_user
      then (db, Inl (HTTPException 400 ''Cannot transfer to yourself.''))
      else
        (case get_user_by_email db (recipient_email request) of
           None \<Rightarrow> (db, Inl (HTTPException 404 ''Recipient account does not exist.''))
         | Some recipient_user \<Rightarrow>
             if u_status recipient_user \<noteq> ''active''
             then (db, Inl (HTTPException 403
                     ''Recipient account is at risk (not verified). Transfer aborted.''))
             else
               let (db1, _) = update_balance db (u_id current_user) (- tr_amount request);
                   (db2, _) = update_balance db1 (u_id recipient_user) (tr_amount request);
                   (db3, _) = create_transaction db2 now (u_id current_user)
                                ''internal_transfer'' (tr_amount request) ''completed''
                                (Some (u_id recipient_user)) None None None None
               in (db3, Inr (Message ''Transfer successful''))))"

definition withdraw_to_bank ::
  "nat \<Rightarrow> 'a::{plus,uminus,ord} session \<Rightarrow> 'a withdraw_bank_request \<Rightarrow> user \<Rightarrow>
     'a session \<times> (failure + 'a response)" where
  "withdraw_to_bank now db request current_user =
     (if u_status current_user \<noteq> ''active''
      then (db, Inl (HTTPException 403 ''User is not active. Please complete KYC.''))
      else if (case get_account_by_user_id db (u_id current_user) of
                 None \<Rightarrow> True
               | Some account \<Rightarrow> balance account < wb_amount request)
      then (db, Inl (HTTPException 400 ''Insufficient balance''))
      else if wb_bank_account_id request
                \<notin> set (map b_id (get_bank_accounts_by_user_id db (u_id current_user)))
      then (db, Inl (HTTPException 403 ''Bank account does not belong to the current user.''))
      else
        let (db1, _) = update_balance db (u_id current_user) (- wb_amount request);
            (db2, _) = create_transaction db1 now (u_id current_user) ''withdraw_bank''
                         (wb_amount request) ''completed'' None None None None
                         (Some (wb_bank_account_id request))
        in (db2, Inr (Message ''Bank withdrawal initiated successfully.'')))"

text \<open>
  \<^verbatim>\<open>blockchain_service.transfer_hkdc\<close> talks to the chain; the handler sees either the
  receipt it returns or the exception it raises, so the gateway is the parameter
  \<open>transfer_hkdc\<close>. Everything raised inside the \<^verbatim>\<open>try\<close> block is caught by
  \<^verbatim>\<open>except Exception\<close>. When it is the commit of the completed row that fails, the
  debit is already committed and the session is left inactive by the failed flush: until
  a rollback, which the code never issues, its next commit raises
  \<^verbatim>\<open>PendingRollbackError\<close>. The \<open>create_transaction\<close> of the except branch is that
  commit, so the request ends with this exception and nothing is logged.
\<close>

text \<open>
  \<^verbatim>\<open>blockchain_service.py\<close>: \<open>format_to_wei\<close> is \<^verbatim>\<open>_format_to_wei\<close>, the product of the
  amount and \<^verbatim>\<open>10 ** decimals\<close> in float arithmetic, truncated to an integer.
  \<open>blockchain_transfer_hkdc\<close> is \<^verbatim>\<open>BlockchainService.transfer_hkdc\<close>; the address
  check of the web3 library, the decimals read from the contract and the node that
  signs, sends and waits for the receipt are its parameters. It is a gateway the
  handler can be given.
\<close>

definition format_to_wei :: "nat \<Rightarrow> pyfloat \<Rightarrow> exn + int" where
  "format_to_wei decimals amt =
     (case float_of_int (10 ^ decimals) of
        Inl e \<Rightarrow> Inl e
      | Inr p \<Rightarrow> int_of_float (float_mul amt p))"

definition blockchain_transfer_hkdc ::
  "(string \<Rightarrow> exn + string) \<Rightarrow> nat \<Rightarrow> (string \<Rightarrow> int \<Rightarrow> exn + receipt) \<Rightarrow>
     string \<Rightarrow> pyfloat \<Rightarrow> exn + receipt" where
  "blockchain_transfer_hkdc to_checksum_address decimals node recipient amt =
     (case to_checksum_address recipient of
        Inl e \<Rightarrow> Inl e
      | Inr recipient_checksum \<Rightarrow>
          (case format_to_wei decimals amt of
             Inl e \<Rightarrow> Inl e
           | Inr amount_in_wei \<Rightarrow> node recipient_checksum amount_in_wei))"

definition pending_rollback_error :: exn where
  "pending_rollback_error =
     Exn ''PendingRollbackError''
       ''This Session has been rolled back due to a previous exception during flush.''"

definition withdraw_to_web3 ::
  "(string \<Rightarrow> 'a \<Rightarrow> exn + receipt) \<Rightarrow> nat \<Rightarrow> 'a::{plus,uminus,ord} session \<Rightarrow>
     'a withdraw_web3_request \<Rightarrow> user \<Rightarrow> 'a session \<times> (failure + 'a response)" where
  "withdraw_to_web3 transfer_hkdc now db request current_user =
     (if u_status current_user \<noteq> ''active''
      then (db, Inl (HTTPException 403 ''User is not active. KYC is required.''))
      else if (case get_account_by_user_id db (u_id current_user) of
                 None \<Rightarrow> True
               | Some account \<Rightarrow> balance account < wd_amount request)
      then (db, Inl (HTTPException 400 ''Insufficient balance.''))
      else
        (case get_whitelist_address_by_address db (recipient_address request) of
           None \<Rightarrow> (db, Inl (HTTPException 403
             (''Withdrawal address is not in the exchange'' @ CHR 0x27 #
              ''s whitelist. Transaction rejected.'')))
         | Some whitelisted_address \<Rightarrow>
             if w_status whitelisted_address = ''frozen''
             then (db, Inl (HTTPException 403
                     ''This withdrawal address is currently frozen. Transaction rejected.''))
             else
               let db0 = db\<lparr>journal := journal db @
                            [Transfer_hkdc (recipient_address request) (wd_amount request)]\<rparr>
               in (case transfer_hkdc (recipient_address request) (wd_amount request) of
                     Inr tx_receipt \<Rightarrow>
                       let hash = transactionHash tx_receipt;
                           (db1, _) = update_balance db0 (u_id current_user) (- wd_amount request)
                       in (case create_transaction db1 now (u_id current_user)
                                  ''withdraw_web3'' (wd_amount request) ''completed''
                                  None None (Some (recipient_address request))
                                  (Some hash) None of
                             (db2, Inr _) \<Rightarrow>
                               (db2, Inr (Message_tx_hash ''Web3 withdrawal successful'' hash))
                           | (db2, Inl _) \<Rightarrow>
                               (db2, Inl (Unhandled pending_rollback_error)))
                   | Inl e \<Rightarrow>
                       let (db1, _) = create_transaction db0 now (u_id current_user)
                                        ''withdraw_web3'' (wd_amount request) ''failed''
                                        None None (Some (recipient_address request)) None None
                       in (db1, Inl (HTTPException 500
                                       (''An unexpected error occurred: '' @ exn_str e))))))"

subsection \<open>Well-formed states\<close>

text \<open>
  The constraints that \<^verbatim>\<open>models.py\<close> puts on the users table (primary key, unique
  email, unique identity card number where one is set), and the account that
  \<^verbatim>\<open>create_user\<close> opens for every user it registers.
\<close>

definition wf_db :: "'a session \<Rightarrow> bool" where
  "wf_db db \<longleftrightarrow>
     distinct (map u_id (users (tables db)))
     \<and> distinct (map email (users (tables db)))
     \<and> distinct (List.map_filter identity_card_number (users (tables db)))
     \<and> list_all (\<lambda>u. get_account_by_user_id db (u_id u) \<noteq> None) (users (tables db))"

definition empty_db :: "'a session" where
  "empty_db = \<lparr>tables = \<lparr>users = [], accounts = [], transactions = [], bank_accounts = [],
                           whitelist = []\<rparr>,
               journal = []\<rparr>"

subsection \<open>A sample state\<close>

text \<open>
  Three registered users, two of them verified, each with an account, one bank card,
  and a whitelist with one usable and one frozen address. The concrete instances below
  run on it, with integer amounts.
\<close>

definition alice :: user where
  "alice = \<lparr>u_id = 1, email = ''alice@example.com'', full_name = Some ''Alice Au'',
             identity_card_number = Some ''A123456'', hashed_password = ''h1'',
             u_status = ''active''\<rparr>"

definition bob :: user where
  "bob = \<lparr>u_id = 2, email = ''bob@example.com'', full_name = Some ''Bob Bai'',
           identity_card_number = Some ''B654321'', hashed_password = ''h2'',
           u_status = ''active''\<rparr>"

definition carol :: user where
  "carol = \<lparr>u_id = 3, email = ''carol@example.com'', full_name = None,
             identity_card_number = None, hashed_password = ''h3'',
             u_status = ''unverified''\<rparr>"

definition ledger :: "int session" where
  "ledger =
     \<lparr>tables =
        \<lparr>users = [alice, bob, carol],
         accounts = [\<lparr>a_id = 1, balance = 100, user_id = 1\<rparr>,
                     \<lparr>a_id = 2, balance = 20, user_id = 2\<rparr>,
                     \<lparr>a_id = 3, balance = 0, user_id = 3\<rparr>],
         transactions = [],
         bank_accounts = [\<lparr>b_id = 1, account_name = ''Alice Au'', bank_name = ''HSBC'',
                            card_number = ''6222000011112222'', b_user_id = 1\<rparr>],
         whitelist = [\<lparr>w_id = 1, address = ''0xA1'', label = ''Cold wallet'',
                        w_status = ''normal'', frozen_at = None\<rparr>,
                      \<lparr>w_id = 2, address = ''0xF2'', label = ''Flagged'',
                        w_status = ''frozen'', frozen_at = Some 7\<rparr>]\<rparr>,
      journal = []\<rparr>"

definition gateway_ok :: "string \<Rightarrow> int \<Rightarrow> exn + receipt" where
  "gateway_ok addr amt = Inr \<lparr>transactionHash = ''0xabc''\<rparr>"

definition withdraw_30 :: "int withdraw_web3_request" where
  "withdraw_30 = \<lparr>wd_amount = 30, recipient_address = ''0xA1''\<rparr>"

definition gateway_raises :: "string \<Rightarrow> string \<Rightarrow> string \<Rightarrow> int \<Rightarrow> exn + receipt" where
  "gateway_raises cls msg addr amt = Inl (Exn cls msg)"

definition withdraw_frozen :: "int withdraw_web3_request" where
  "withdraw_frozen = \<lparr>wd_amount = 30, recipient_address = ''0xF2''\<rparr>"

definition withdraw_unlisted :: "int withdraw_web3_request" where
  "withdraw_unlisted = \<lparr>wd_amount = 30, recipient_address = ''0xEE''\<rparr>"

definition deposit_50 :: "int deposit_bank_request" where
  "deposit_50 = \<lparr>dep_amount = 50\<rparr>"

definition transfer_to :: "string \<Rightarrow> int \<Rightarrow> int transfer_request" where
  "transfer_to e amt = \<lparr>recipient_email = e, tr_amount = amt\<rparr>"

definition kyc_carol :: kyc_submit where
  "kyc_carol = \<lparr>kyc_full_name = ''Carol Chan'', kyc_identity_card_number = ''C777777''\<rparr>"

definition kyc_taken :: kyc_submit where
  "kyc_taken = \<lparr>kyc_full_name = ''Carol Chan'', kyc_identity_card_number = ''A123456''\<rparr>"

section \<open>Properties\<close>

subsection \<open>Rows found and rewritten\<close>

lemma find_update_first_same:
  "find p rs = Some r \<Longrightarrow> p r' \<Longrightarrow> find p (update_first p (\<lambda>_. r') rs) = Some r'"
  by (induction rs) (auto split: if_splits)

lemma find_account_update_other:
  "uid' \<noteq> uid \<Longrightarrow> user_id r' = uid \<Longrightarrow>
   find (\<lambda>a. user_id a = uid') (update_first (\<lambda>a. user_id a = uid) (\<lambda>_. r') rs)
     = find (\<lambda>a. user_id a = uid') rs"
  by (induction rs) auto

lemma find_Some_holds: "find p rs = Some r \<Longrightarrow> p r"
  by (induction rs) (auto split: if_splits)

lemma find_Some_mem: "find p rs = Some r \<Longrightarrow> r \<in> set rs"
  by (induction rs) (auto split: if_splits)

lemma update_balance_Some:
  assumes "get_account_by_user_id db uid = Some acc"
  shows "update_balance db uid amt =
           (\<lparr>tables = (tables db)\<lparr>accounts := update_first (\<lambda>a. user_id a = uid)
                         (\<lambda>_. acc\<lparr>balance := balance acc + amt\<rparr>) (accounts (tables db))\<rparr>,
             journal = journal db @ [Commit ((tables db)\<lparr>accounts := update_first (\<lambda>a. user_id a = uid)
                         (\<lambda>_. acc\<lparr>balance := balance acc + amt\<rparr>) (accounts (tables db))\<rparr>)]\<rparr>,
            Some (acc\<lparr>balance := balance acc + amt\<rparr>))"
  using assms by (simp add: update_balance_def commit_def Let_def)

lemma update_balance_None:
  "get_account_by_user_id db uid = None \<Longrightarrow> update_balance db uid amt = (db, None)"
  by (simp add: update_balance_def)

lemma get_account_after_update:
  assumes "get_account_by_user_id db uid = Some acc"
  shows "get_account_by_user_id (fst (update_balance db uid amt)) uid
           = Some (acc\<lparr>balance := balance acc + amt\<rparr>)"
proof -
  have "user_id acc = uid"
    using assms find_Some_holds[of "\<lambda>a. user_id a = uid"] by (simp add: get_account_by_user_id_def)
  then show ?thesis
    using assms
    by (simp add: update_balance_Some get_account_by_user_id_def find_update_first_same)
qed

lemma get_account_after_update_other:
  assumes "uid' \<noteq> uid"
  shows "get_account_by_user_id (fst (update_balance db uid amt)) uid'
           = get_account_by_user_id db uid'"
proof (cases "get_account_by_user_id db uid")
  case None
  then show ?thesis by (simp add: update_balance_None)
next
  case (Some acc)
  then have "user_id acc = uid"
    using find_Some_holds[of "\<lambda>a. user_id a = uid"] by (simp add: get_account_by_user_id_def)
  with assms Some show ?thesis
    by (simp add: update_balance_Some get_account_by_user_id_def find_account_update_other)
qed


subsection \<open>Withdrawal to the chain, once the checks have passed\<close>

lemma withdraw_to_web3_receipt:
  assumes "u_status current_user = ''active''"
    and "get_account_by_user_id db (u_id current_user) = Some account"
    and "\<not> balance account < wd_amount request"
    and "get_whitelist_address_by_address db (recipient_address request) = Some entry"
    and "w_status entry \<noteq> ''frozen''"
    and "transfer_hkdc (recipient_address request) (wd_amount request) = Inr tx_receipt"
    and "Some (transactionHash tx_receipt) \<notin> set (map tx_hash (transactions (tables db)))"
  shows "withdraw_to_web3 transfer_hkdc now db request current_user =
    (\<lparr>tables = (tables db)\<lparr>
         accounts := update_first (\<lambda>a. user_id a = u_id current_user)
                       (\<lambda>_. account\<lparr>balance := balance account + - wd_amount request\<rparr>)
                       (accounts (tables db)),
         transactions := transactions (tables db) @
           [\<lparr>t_id = next_id (map t_id (transactions (tables db))),
             initiator_user_id = u_id current_user,
             recipient_user_id = None,
             initiator_web3_address = None,
             recipient_web3_address = Some (recipient_address request),
             bank_account_id = None,
             t_type = ''withdraw_web3'',
             amount = wd_amount request,
             tx_hash = Some (transactionHash tx_receipt),
             t_status = ''completed'',
             completed_at = Some now\<rparr>]\<rparr>,
       journal = journal db @
         [Transfer_hkdc (recipient_address request) (wd_amount request),
          Commit ((tables db)\<lparr>
            accounts := update_first (\<lambda>a. user_id a = u_id current_user)
                          (\<lambda>_. account\<lparr>balance := balance account + - wd_amount request\<rparr>)
                          (accounts (tables db))\<rparr>),
          Commit ((tables db)\<lparr>
            accounts := update_first (\<lambda>a. user_id a = u_id current_user)
                          (\<lambda>_. account\<lparr>balance := balance account + - wd_amount request\<rparr>)
                          (accounts (tables db)),
            transactions := transactions (tables db) @
              [\<lparr>t_id = next_id (map t_id (transactions (tables db))),
                initiator_user_id = u_id current_user,
                recipient_user_id = None,
                initiator_web3_address = None,
                recipient_web3_address = Some (recipient_address request),
                bank_account_id = None,
                t_type = ''withdraw_web3'',
                amount = wd_amount request,
                tx_hash = Some (transactionHash tx_receipt),
                t_status = ''completed'',
                completed_at = Some now\<rparr>]\<rparr>)]\<rparr>,
     Inr (Message_tx_hash ''Web3 withdrawal successful'' (transactionHash tx_receipt)))"
  using assms
  by (simp add: withdraw_to_web3_def update_balance_def create_transaction_def commit_def
        get_account_by_user_id_def Let_def)


lemma withdraw_to_web3_raised:
  assumes "u_status current_user = ''active''"
    and "get_account_by_user_id db (u_id current_user) = Some account"
    and "\<not> balance account < wd_amount request"
    and "get_whitelist_address_by_address db (recipient_address request) = Some entry"
    and "w_status entry \<noteq> ''frozen''"
    and "transfer_hkdc (recipient_address request) (wd_amount request) = Inl e"
  shows "withdraw_to_web3 transfer_hkdc now db request current_user =
    (\<lparr>tables = (tables db)\<lparr>
         transactions := transactions (tables db) @
           [\<lparr>t_id = next_id (map t_id (transactions (tables db))),
             initiator_user_id = u_id current_user,
             recipient_user_id = None,
             initiator_web3_address = None,
             recipient_web3_address = Some (recipient_address request),
             bank_account_id = None,
             t_type = ''withdraw_web3'',
             amount = wd_amount request,
             tx_hash = None,
             t_status = ''failed'',
             completed_at = None\<rparr>]\<rparr>,
       journal = journal db @
         [Transfer_hkdc (recipient_address request) (wd_amount request),
          Commit ((tables db)\<lparr>
            transactions := transactions (tables db) @
              [\<lparr>t_id = next_id (map t_id (transactions (tables db))),
                initiator_user_id = u_id current_user,
                recipient_user_id = None,
                initiator_web3_address = None,
                recipient_web3_address = Some (recipient_address request),
                bank_account_id = None,
                t_type = ''withdraw_web3'',
                amount = wd_amount request,
                tx_hash = None,
                t_status = ''failed'',
                completed_at = None\<rparr>]\<rparr>)]\<rparr>,
     Inl (HTTPException 500 (''An unexpected error occurred: '' @ exn_str e)))"
  using assms
  by (simp add: withdraw_to_web3_def create_transaction_def commit_def Let_def)

lemma withdraw_to_web3_completed:
  assumes "u_status current_user = ''active''"
    and "get_account_by_user_id db (u_id current_user) = Some account"
    and "\<not> balance account < wd_amount request"
    and "get_whitelist_address_by_address db (recipient_address request) = Some entry"
    and "w_status entry = ''normal''"
    and "transfer_hkdc (recipient_address request) (wd_amount request) = Inr tx_receipt"
    and "Some (transactionHash tx_receipt) \<notin> set (map tx_hash (transactions (tables db)))"
  shows
    "(let (db', result) = withdraw_to_web3 transfer_hkdc now db request current_user in
        result = Inr (Message_tx_hash ''Web3 withdrawal successful'' (transactionHash tx_receipt))
      \<and> get_account_by_user_id db' (u_id current_user)
          = Some (account\<lparr>balance := balance account + - wd_amount request\<rparr>)
      \<and> transactions (tables db') = transactions (tables db) @
            [\<lparr>t_id = next_id (map t_id (transactions (tables db))),
              initiator_user_id = u_id current_user,
              recipient_user_id = None,
              initiator_web3_address = None,
              recipient_web3_address = Some (recipient_address request),
              bank_account_id = None,
              t_type = ''withdraw_web3'',
              amount = wd_amount request,
              tx_hash = Some (transactionHash tx_receipt),
              t_status = ''completed'',
              completed_at = Some now\<rparr>]
      \<and> journal db' = journal db @
            [Transfer_hkdc (recipient_address request) (wd_amount request),
             Commit ((tables db')\<lparr>transactions := transactions (tables db)\<rparr>),
             Commit (tables db')])"
proof -
  have nf: "w_status entry \<noteq> ''frozen''"
    using assms(5) by simp
  have own: "user_id account = u_id current_user"
    using assms(2) find_Some_holds[of "\<lambda>a. user_id a = u_id current_user"]
    by (simp add: get_account_by_user_id_def)
  show ?thesis
    using assms(2) own
    by (simp add: withdraw_to_web3_receipt[where transfer_hkdc = transfer_hkdc,
                    OF assms(1-4) nf assms(6,7)]
          get_account_by_user_id_def find_update_first_same)
qed

text \<open>
  Claim C2. The request passes the checks of status, balance and whitelist, and the
  gateway raises an exception \<open>e\<close> (a rejection). Then the handler answers with status
  500 and a detail that ends with the message of \<open>e\<close>, exactly one row is appended to
  the transactions (type withdraw_web3, status failed, no hash), and the accounts table,
  hence the balance of the initiator, is as before.
\<close>

theorem withdraw_to_web3_rejected:
  assumes "u_status current_user = ''active''"
    and "get_account_by_user_id db (u_id current_user) = Some account"
    and "\<not> balance account < wd_amount request"
    and "get_whitelist_address_by_address db (recipient_address request) = Some entry"
    and "w_status entry \<noteq> ''frozen''"
    and "transfer_hkdc (recipient_address request) (wd_amount request) = Inl e"
  shows
    "(let (db', result) = withdraw_to_web3 transfer_hkdc now db request current_user in
        result = Inl (HTTPException 500 (''An unexpected error occurred: '' @ exn_str e))
      \<and> transactions (tables db') = transactions (tables db) @
            [\<lparr>t_id = next_id (map t_id (transactions (tables db))),
              initiator_user_id = u_id current_user,
              recipient_user_id = None,
              initiator_web3_address = None,
              recipient_web3_address = Some (recipient_address request),
              bank_account_id = None,
              t_type = ''withdraw_web3'',
              amount = wd_amount request,
              tx_hash = None,
              t_status = ''failed'',
              completed_at = None\<rparr>]
      \<and> accounts (tables db') = accounts (tables db)
      \<and> get_account_by_user_id db' (u_id current_user) = Some account
      \<and> journal db' = journal db @
            [Transfer_hkdc (recipient_address request) (wd_amount request),
             Commit (tables db')])"
  using assms(2)
  by (simp add: withdraw_to_web3_raised[where transfer_hkdc = transfer_hkdc, OF assms]
        get_account_by_user_id_def)

theorem withdraw_to_web3_rejected_witness:
  "u_status alice = ''active''
   \<and> get_account_by_user_id ledger (u_id alice) = Some \<lparr>a_id = 1, balance = 100, user_id = 1\<rparr>
   \<and> \<not> (100::int) < wd_amount withdraw_30
   \<and> get_whitelist_address_by_address ledger (recipient_address withdraw_30)
       = Some \<lparr>w_id = 1, address = ''0xA1'', label = ''Cold wallet'',
                w_status = ''normal'', frozen_at = None\<rparr>
   \<and> ''normal'' \<noteq> ''frozen''
   \<and> gateway_raises ''ValueError'' ''insufficient gas''
         (recipient_address withdraw_30) (wd_amount withdraw_30)
       = Inl (Exn ''ValueError'' ''insufficient gas'')
   \<and> snd (withdraw_to_web3 (gateway_raises ''ValueError'' ''insufficient gas'') 5 ledger
              withdraw_30 alice)
       = Inl (HTTPException 500 ''An unexpected error occurred: insufficient gas'')
   \<and> get_account_by_user_id
         (fst (withdraw_to_web3 (gateway_raises ''ValueError'' ''insufficient gas'') 5 ledger
                 withdraw_30 alice)) 1
       = Some \<lparr>a_id = 1, balance = 100, user_id = 1\<rparr>
   \<and> transactions (tables
         (fst (withdraw_to_web3 (gateway_raises ''ValueError'' ''insufficient gas'') 5 ledger
                 withdraw_30 alice)))
       = [\<lparr>t_id = 1, initiator_user_id = 1, recipient_user_id = None,
            initiator_web3_address = None, recipient_web3_address = Some ''0xA1'',
            bank_account_id = None, t_type = ''withdraw_web3'', amount = 30,
            tx_hash = None, t_status = ''failed'', completed_at = None\<rparr>]"
proof -
  have h1: "u_status alice = ''active''"
    by (simp add: alice_def)
  have h2: "get_account_by_user_id ledger (u_id alice)
              = Some \<lparr>a_id = 1, balance = 100, user_id = 1\<rparr>"
    by (simp add: get_account_by_user_id_def ledger_def alice_def)
  have h3: "\<not> balance \<lparr>a_id = 1, balance = 100::int, user_id = 1\<rparr> < wd_amount withdraw_30"
    by (simp add: withdraw_30_def)
  have h4: "get_whitelist_address_by_address ledger (recipient_address withdraw_30)
              = Some \<lparr>w_id = 1, address = ''0xA1'', label = ''Cold wallet'',
                       w_status = ''normal'', frozen_at = None\<rparr>"
    by (simp add: get_whitelist_address_by_address_def ledger_def withdraw_30_def)
  have h5: "w_status \<lparr>w_id = 1, address = ''0xA1'', label = ''Cold wallet'',
                       w_status = ''normal'', frozen_at = None\<rparr> \<noteq> ''frozen''"
    by simp
  have h6: "gateway_raises ''ValueError'' ''insufficient gas''
              (recipient_address withdraw_30) (wd_amount withdraw_30)
              = Inl (Exn ''ValueError'' ''insufficient gas'')"
    by (simp add: gateway_raises_def)
  show ?thesis
    using withdraw_to_web3_rejected[where transfer_hkdc = "gateway_raises ''ValueError'' ''insufficient gas''"
            and now = 5, OF h1 h2 h3 h4 h5 h6] h1 h2 h3 h4 h6
    by (simp add: Let_def split_beta next_id_def ledger_def alice_def withdraw_30_def)
qed


text \<open>
  Claim C3, as the code has it. The handler has one \<^verbatim>\<open>except Exception\<close> branch: two
  gateways that raise exceptions of different classes with the same message lead to the
  same state and the same answer, which is status 500 with the message appended to a
  fixed prefix; the accounts are untouched and one row of status failed is appended.
  A time-out is therefore not told apart from a rejection.
\<close>

theorem withdraw_to_web3_exception_class_ignored:
  assumes "u_status current_user = ''active''"
    and "get_account_by_user_id db (u_id current_user) = Some account"
    and "\<not> balance account < wd_amount request"
    and "get_whitelist_address_by_address db (recipient_address request) = Some entry"
    and "w_status entry \<noteq> ''frozen''"
    and "gateway1 (recipient_address request) (wd_amount request) = Inl (Exn class1 msg)"
    and "gateway2 (recipient_address request) (wd_amount request) = Inl (Exn class2 msg)"
  shows
    "withdraw_to_web3 gateway1 now db request current_user
       = withdraw_to_web3 gateway2 now db request current_user
     \<and> snd (withdraw_to_web3 gateway1 now db request current_user)
         = Inl (HTTPException 500 (''An unexpected error occurred: '' @ msg))
     \<and> accounts (tables (fst (withdraw_to_web3 gateway1 now db request current_user)))
         = accounts (tables db)
     \<and> map t_status (transactions (tables
           (fst (withdraw_to_web3 gateway1 now db request current_user))))
         = map t_status (transactions (tables db)) @ [''failed'']"
  by (simp add: withdraw_to_web3_raised[where transfer_hkdc = gateway1, OF assms(1-6)]
        withdraw_to_web3_raised[where transfer_hkdc = gateway2, OF assms(1-5) assms(7)])

theorem withdraw_to_web3_exception_class_ignored_witness:
  "u_status alice = ''active''
   \<and> get_account_by_user_id ledger (u_id alice) = Some \<lparr>a_id = 1, balance = 100, user_id = 1\<rparr>
   \<and> \<not> (100::int) < wd_amount withdraw_30
   \<and> get_whitelist_address_by_address ledger (recipient_address withdraw_30)
       = Some \<lparr>w_id = 1, address = ''0xA1'', label = ''Cold wallet'',
                w_status = ''normal'', frozen_at = None\<rparr>
   \<and> ''normal'' \<noteq> ''frozen''
   \<and> snd (withdraw_to_web3 (gateway_raises ''TimeExhausted'' ''no receipt'') 5 ledger
              withdraw_30 alice)
       = Inl (HTTPException 500 ''An unexpected error occurred: no receipt'')
   \<and> accounts (tables (fst (withdraw_to_web3 (gateway_raises ''TimeExhausted'' ''no receipt'')
                                 5 ledger withdraw_30 alice)))
       = accounts (tables ledger)
   \<and> map t_status (transactions (tables
         (fst (withdraw_to_web3 (gateway_raises ''TimeExhausted'' ''no receipt'') 5 ledger
                 withdraw_30 alice))))
       = [''failed'']"
proof -
  have h1: "u_status alice = ''active''"
    by (simp add: alice_def)
  have h2: "get_account_by_user_id ledger (u_id alice)
              = Some \<lparr>a_id = 1, balance = 100, user_id = 1\<rparr>"
    by (simp add: get_account_by_user_id_def ledger_def alice_def)
  have h3: "\<not> balance \<lparr>a_id = 1, balance = 100::int, user_id = 1\<rparr> < wd_amount withdraw_30"
    by (simp add: withdraw_30_def)
  have h4: "get_whitelist_address_by_address ledger (recipient_address withdraw_30)
              = Some \<lparr>w_id = 1, address = ''0xA1'', label = ''Cold wallet'',
                       w_status = ''normal'', frozen_at = None\<rparr>"
    by (simp add: get_whitelist_address_by_address_def ledger_def withdraw_30_def)
  have h5: "w_status \<lparr>w_id = 1, address = ''0xA1'', label = ''Cold wallet'',
                       w_status = ''normal'', frozen_at = None\<rparr> \<noteq> ''frozen''"
    by simp
  have h6: "gateway_raises ''TimeExhausted'' ''no receipt''
              (recipient_address withdraw_30) (wd_amount withdraw_30)
              = Inl (Exn ''TimeExhausted'' ''no receipt'')"
    by (simp add: gateway_raises_def)
  have tx: "transactions (tables ledger) = []"
    by (simp add: ledger_def)
  have h7: "gateway_raises ''ValueError'' ''no receipt''
              (recipient_address withdraw_30) (wd_amount withdraw_30)
              = Inl (Exn ''ValueError'' ''no receipt'')"
    by (simp add: gateway_raises_def)
  show ?thesis
    using withdraw_to_web3_exception_class_ignored[
            where ?gateway1.0 = "gateway_raises ''TimeExhausted'' ''no receipt''"
              and ?gateway2.0 = "gateway_raises ''ValueError'' ''no receipt''"
              and now = 5, OF h1 h2 h3 h4 h5 h6 h7, THEN conjunct2] h1 h2 h3 h4 tx
    by simp
qed

text \<open>
  Claim C3 as stated fails: a gateway that times out (\<^verbatim>\<open>TimeExhausted\<close>) and one that
  rejects (\<^verbatim>\<open>ValueError\<close>) give the same result on the sample state.
\<close>

theorem withdraw_to_web3_timeout_counterexample:
  "withdraw_to_web3 (gateway_raises ''TimeExhausted'' ''no receipt'') 5 ledger withdraw_30 alice
     = withdraw_to_web3 (gateway_raises ''ValueError'' ''no receipt'') 5 ledger withdraw_30 alice"
  by (simp add: withdraw_to_web3_def gateway_raises_def ledger_def alice_def withdraw_30_def
        get_account_by_user_id_def get_whitelist_address_by_address_def)

text \<open>
  Claim C6. An active user with sufficient balance asks for a withdrawal. When the
  address is not in the whitelist the handler answers 403 with the not-in-whitelist
  detail, when the entry found is frozen it answers 403 with the frozen detail, and the
  two answers differ. In both cases the session is returned as it was: no balance
  changed, nothing committed and no gateway call in the journal.
\<close>

theorem withdraw_to_web3_not_eligible:
  assumes "u_status current_user = ''active''"
    and "get_account_by_user_id db (u_id current_user) = Some account"
    and "\<not> balance account < wd_amount request"
  shows
    "(get_whitelist_address_by_address db (recipient_address request) = None \<longrightarrow>
        withdraw_to_web3 transfer_hkdc now db request current_user =
          (db, Inl (HTTPException 403
             (''Withdrawal address is not in the exchange'' @ CHR 0x27 #
              ''s whitelist. Transaction rejected.''))))
     \<and> (\<forall>entry. get_whitelist_address_by_address db (recipient_address request) = Some entry
            \<and> w_status entry = ''frozen'' \<longrightarrow>
        withdraw_to_web3 transfer_hkdc now db request current_user =
          (db, Inl (HTTPException 403
             ''This withdrawal address is currently frozen. Transaction rejected.'')))
     \<and> HTTPException 403 (''Withdrawal address is not in the exchange'' @ CHR 0x27 #
                             ''s whitelist. Transaction rejected.'')
         \<noteq> HTTPException 403
               ''This withdrawal address is currently frozen. Transaction rejected.''"
  using assms by (simp add: withdraw_to_web3_def)

theorem withdraw_to_web3_not_eligible_witness:
  "u_status alice = ''active''
   \<and> get_account_by_user_id ledger (u_id alice) = Some \<lparr>a_id = 1, balance = 100, user_id = 1\<rparr>
   \<and> \<not> (100::int) < 30
   \<and> get_whitelist_address_by_address ledger (recipient_address withdraw_unlisted) = None
   \<and> withdraw_to_web3 gateway_ok 5 ledger withdraw_unlisted alice =
        (ledger, Inl (HTTPException 403
           (''Withdrawal address is not in the exchange'' @ CHR 0x27 #
            ''s whitelist. Transaction rejected.'')))
   \<and> get_whitelist_address_by_address ledger (recipient_address withdraw_frozen)
       = Some \<lparr>w_id = 2, address = ''0xF2'', label = ''Flagged'',
                w_status = ''frozen'', frozen_at = Some 7\<rparr>
   \<and> withdraw_to_web3 gateway_ok 5 ledger withdraw_frozen alice =
        (ledger, Inl (HTTPException 403
           ''This withdrawal address is currently frozen. Transaction rejected.''))"
proof -
  have h1: "u_status alice = ''active''"
    by (simp add: alice_def)
  have h2: "get_account_by_user_id ledger (u_id alice)
              = Some \<lparr>a_id = 1, balance = 100, user_id = 1\<rparr>"
    by (simp add: get_account_by_user_id_def ledger_def alice_def)
  have h3: "\<not> balance \<lparr>a_id = 1, balance = 100::int, user_id = 1\<rparr>
                < wd_amount withdraw_unlisted"
    by (simp add: withdraw_unlisted_def)
  have h3': "\<not> balance \<lparr>a_id = 1, balance = 100::int, user_id = 1\<rparr>
                < wd_amount withdraw_frozen"
    by (simp add: withdraw_frozen_def)
  have absent: "get_whitelist_address_by_address ledger (recipient_address withdraw_unlisted)
                  = None"
    by (simp add: get_whitelist_address_by_address_def ledger_def withdraw_unlisted_def)
  have frozen: "get_whitelist_address_by_address ledger (recipient_address withdraw_frozen)
                  = Some \<lparr>w_id = 2, address = ''0xF2'', label = ''Flagged'',
                           w_status = ''frozen'', frozen_at = Some 7\<rparr>"
    by (simp add: get_whitelist_address_by_address_def ledger_def withdraw_frozen_def)
  show ?thesis
    using withdraw_to_web3_not_eligible[where transfer_hkdc = gateway_ok and now = 5,
            OF h1 h2 h3]
          withdraw_to_web3_not_eligible[where transfer_hkdc = gateway_ok and now = 5,
            OF h1 h2 h3']
          h1 h2 absent frozen
    by simp
qed

subsection \<open>Deposits\<close>

text \<open>The Alipay confirmation refuses a user who is not active and changes nothing.\<close>

lemma confirm_alipay_deposit_not_active:
  "u_status current_user \<noteq> ''active'' \<Longrightarrow>
   confirm_alipay_deposit now db request current_user
     = (db, Inl (HTTPException 403 ''User is not active.''))"
  by (simp add: confirm_alipay_deposit_def)

text \<open>
  Claim C8 fails on the web3 confirmation, which has no status check. Carol is
  unverified: her Alipay confirmation of 50 is refused with 403 and the session is
  unchanged, while her web3 confirmation of 50 is accepted, raises her balance from 0
  to 50 and appends a completed deposit_web3 row to the empty transaction log.
\<close>

theorem confirm_web3_deposit_unverified:
  "u_status carol = ''unverified''
   \<and> confirm_alipay_deposit 5 ledger deposit_50 carol
       = (ledger, Inl (HTTPException 403 ''User is not active.''))
   \<and> snd (confirm_web3_deposit 5 ledger deposit_50 carol)
       = Inr (Message ''Web3 deposit confirmed'')
   \<and> get_account_by_user_id ledger (u_id carol) = Some \<lparr>a_id = 3, balance = 0, user_id = 3\<rparr>
   \<and> get_account_by_user_id (fst (confirm_web3_deposit 5 ledger deposit_50 carol)) (u_id carol)
       = Some \<lparr>a_id = 3, balance = 50, user_id = 3\<rparr>
   \<and> transactions (tables ledger) = []
   \<and> transactions (tables (fst (confirm_web3_deposit 5 ledger deposit_50 carol)))
       = [\<lparr>t_id = 1, initiator_user_id = 3, recipient_user_id = None,
            initiator_web3_address = None, recipient_web3_address = None,
            bank_account_id = None, t_type = ''deposit_web3'', amount = 50,
            tx_hash = None, t_status = ''completed'', completed_at = Some 5\<rparr>]"
  by (simp add: confirm_web3_deposit_def confirm_alipay_deposit_def update_balance_def
        create_transaction_def commit_def get_account_by_user_id_def next_id_def
        ledger_def carol_def deposit_50_def Let_def)

subsection \<open>Internal transfer\<close>

text \<open>
  Claim C10. When the recipient email is the initiator's own, or no user has it, or
  the user found is not active, the transfer fails and returns the session as it was.
  If moreover the initiator is active and has sufficient funds, the failure is 400
  (transfer to oneself), 404 (no such recipient) or 403 (recipient not verified), in
  this order of precedence.
\<close>

theorem internal_transfer_invalid_recipient:
  assumes "recipient_email request = email current_user
           \<or> get_user_by_email db (recipient_email request) = None
           \<or> (\<exists>recipient_user.
                 get_user_by_email db (recipient_email request) = Some recipient_user
                 \<and> u_status recipient_user \<noteq> ''active'')"
  shows
    "fst (internal_transfer now db request current_user) = db
     \<and> isl (snd (internal_transfer now db request current_user))
     \<and> (u_status current_user = ''active''
          \<and> (\<exists>sender_account.
                 get_account_by_user_id db (u_id current_user) = Some sender_account
                 \<and> \<not> balance sender_account < tr_amount request) \<longrightarrow>
          snd (internal_transfer now db request current_user) =
            Inl (if recipient_email request = email current_user
                 then HTTPException 400 ''Cannot transfer to yourself.''
                 else if get_user_by_email db (recipient_email request) = None
                 then HTTPException 404 ''Recipient account does not exist.''
                 else HTTPException 403
                        ''Recipient account is at risk (not verified). Transfer aborted.''))"
  using assms by (auto simp add: internal_transfer_def split: option.splits)


theorem internal_transfer_invalid_recipient_witness:
  "u_status alice = ''active''
   \<and> get_account_by_user_id ledger (u_id alice) = Some \<lparr>a_id = 1, balance = 100, user_id = 1\<rparr>
   \<and> \<not> (100::int) < 30
   \<and> recipient_email (transfer_to ''alice@example.com'' 30) = email alice
   \<and> internal_transfer 5 ledger (transfer_to ''alice@example.com'' 30) alice
       = (ledger, Inl (HTTPException 400 ''Cannot transfer to yourself.''))
   \<and> get_user_by_email ledger (recipient_email (transfer_to ''dave@example.com'' 30)) = None
   \<and> internal_transfer 5 ledger (transfer_to ''dave@example.com'' 30) alice
       = (ledger, Inl (HTTPException 404 ''Recipient account does not exist.''))
   \<and> get_user_by_email ledger (recipient_email (transfer_to ''carol@example.com'' 30))
       = Some carol
   \<and> u_status carol \<noteq> ''active''
   \<and> internal_transfer 5 ledger (transfer_to ''carol@example.com'' 30) alice
       = (ledger, Inl (HTTPException 403
            ''Recipient account is at risk (not verified). Transfer aborted.''))"
proof -
  have active: "u_status alice = ''active''"
    by (simp add: alice_def)
  have acct: "get_account_by_user_id ledger (u_id alice)
                = Some \<lparr>a_id = 1, balance = 100, user_id = 1\<rparr>"
    by (simp add: get_account_by_user_id_def ledger_def alice_def)
  have self: "recipient_email (transfer_to ''alice@example.com'' 30) = email alice"
    by (simp add: transfer_to_def alice_def)
  have missing: "get_user_by_email ledger (recipient_email (transfer_to ''dave@example.com'' 30))
                   = None"
    by (simp add: get_user_by_email_def transfer_to_def ledger_def alice_def bob_def carol_def)
  have found: "get_user_by_email ledger (recipient_email (transfer_to ''carol@example.com'' 30))
                 = Some carol"
    by (simp add: get_user_by_email_def transfer_to_def ledger_def alice_def bob_def carol_def)
  have unverified: "u_status carol \<noteq> ''active''"
    by (simp add: carol_def)
  have other: "recipient_email (transfer_to ''dave@example.com'' 30) \<noteq> email alice"
              "recipient_email (transfer_to ''carol@example.com'' 30) \<noteq> email alice"
    by (simp_all add: transfer_to_def alice_def)
  have amt: "tr_amount (transfer_to e 30) = 30" for e
    by (simp add: transfer_to_def)
  have r1: "internal_transfer 5 ledger (transfer_to ''alice@example.com'' 30) alice
              = (ledger, Inl (HTTPException 400 ''Cannot transfer to yourself.''))"
    using internal_transfer_invalid_recipient[of "transfer_to ''alice@example.com'' 30"
            alice ledger 5] self active acct amt
    by (simp add: prod_eq_iff)
  have r2: "internal_transfer 5 ledger (transfer_to ''dave@example.com'' 30) alice
              = (ledger, Inl (HTTPException 404 ''Recipient account does not exist.''))"
    using internal_transfer_invalid_recipient[of "transfer_to ''dave@example.com'' 30"
            alice ledger 5] missing other active acct amt
    by (simp add: prod_eq_iff)
  have r3: "internal_transfer 5 ledger (transfer_to ''carol@example.com'' 30) alice
              = (ledger, Inl (HTTPException 403
                   ''Recipient account is at risk (not verified). Transfer aborted.''))"
    using internal_transfer_invalid_recipient[of "transfer_to ''carol@example.com'' 30"
            alice ledger 5] found unverified other active acct amt
    by (simp add: prod_eq_iff)
  show ?thesis
    using active acct self missing found unverified r1 r2 r3 by simp
qed

lemma get_current_user_row:
  assumes "get_current_user db sub = Inr current_user"
  shows "current_user \<in> set (users (tables db))" and "sub = Some (email current_user)"
  using assms find_Some_mem[of _ "users (tables db)" current_user]
    find_Some_holds[of _ "users (tables db)" current_user]
  by (auto simp add: get_current_user_def get_user_by_email_def split: option.splits)

lemma same_id_same_user:
  assumes "distinct (map u_id us)" and "u \<in> set us" and "v \<in> set us" and "u_id u = u_id v"
  shows "u = v"
  using assms by (meson distinct_map inj_on_def)

lemma internal_transfer_failed:
  assumes "snd (internal_transfer now db request current_user) = Inl failure"
  shows "fst (internal_transfer now db request current_user) = db"
  using assms
  by (auto simp add: internal_transfer_def Let_def split_beta split: if_splits option.splits)

lemma internal_transfer_passed:
  assumes "snd (internal_transfer now db request current_user) = Inr response"
  shows "u_status current_user = ''active''
     \<and> (\<exists>sender_account. get_account_by_user_id db (u_id current_user) = Some sender_account
            \<and> \<not> balance sender_account < tr_amount request)
     \<and> recipient_email request \<noteq> email current_user
     \<and> (\<exists>recipient_user. get_user_by_email db (recipient_email request) = Some recipient_user
            \<and> u_status recipient_user = ''active'')"
  using assms
  by (auto simp add: internal_transfer_def Let_def split_beta split: if_splits option.splits)

lemma internal_transfer_completed:
  assumes "u_status current_user = ''active''"
    and "get_account_by_user_id db (u_id current_user) = Some sender_account"
    and "\<not> balance sender_account < tr_amount request"
    and "recipient_email request \<noteq> email current_user"
    and "get_user_by_email db (recipient_email request) = Some recipient_user"
    and "u_status recipient_user = ''active''"
    and "get_account_by_user_id db (u_id recipient_user) = Some recipient_account"
    and "u_id recipient_user \<noteq> u_id current_user"
  shows "internal_transfer now db request current_user =
    (\<lparr>tables = (tables db)\<lparr>
         accounts :=
           update_first (\<lambda>a. user_id a = u_id recipient_user)
             (\<lambda>_. recipient_account\<lparr>balance := balance recipient_account + tr_amount request\<rparr>)
             (update_first (\<lambda>a. user_id a = u_id current_user)
                (\<lambda>_. sender_account\<lparr>balance := balance sender_account + - tr_amount request\<rparr>)
                (accounts (tables db))),
         transactions := transactions (tables db) @
           [\<lparr>t_id = next_id (map t_id (transactions (tables db))),
             initiator_user_id = u_id current_user,
             recipient_user_id = Some (u_id recipient_user),
             initiator_web3_address = None,
             recipient_web3_address = None,
             bank_account_id = None,
             t_type = ''internal_transfer'',
             amount = tr_amount request,
             tx_hash = None,
             t_status = ''completed'',
             completed_at = Some now\<rparr>]\<rparr>,
       journal = journal db @
         [Commit ((tables db)\<lparr>
            accounts :=
              update_first (\<lambda>a. user_id a = u_id current_user)
                (\<lambda>_. sender_account\<lparr>balance := balance sender_account + - tr_amount request\<rparr>)
                (accounts (tables db))\<rparr>),
          Commit ((tables db)\<lparr>
            accounts :=
              update_first (\<lambda>a. user_id a = u_id recipient_user)
                (\<lambda>_. recipient_account\<lparr>balance := balance recipient_account + tr_amount request\<rparr>)
                (update_first (\<lambda>a. user_id a = u_id current_user)
                   (\<lambda>_. sender_account\<lparr>balance := balance sender_account + - tr_amount request\<rparr>)
                   (accounts (tables db)))\<rparr>),
          Commit ((tables db)\<lparr>
            accounts :=
              update_first (\<lambda>a. user_id a = u_id recipient_user)
                (\<lambda>_. recipient_account\<lparr>balance := balance recipient_account + tr_amount request\<rparr>)
                (update_first (\<lambda>a. user_id a = u_id current_user)
                   (\<lambda>_. sender_account\<lparr>balance := balance sender_account + - tr_amount request\<rparr>)
                   (accounts (tables db))),
            transactions := transactions (tables db) @
              [\<lparr>t_id = next_id (map t_id (transactions (tables db))),
                initiator_user_id = u_id current_user,
                recipient_user_id = Some (u_id recipient_user),
                initiator_web3_address = None,
                recipient_web3_address = None,
                bank_account_id = None,
                t_type = ''internal_transfer'',
                amount = tr_amount request,
                tx_hash = None,
                t_status = ''completed'',
                completed_at = Some now\<rparr>]\<rparr>)]\<rparr>,
     Inr (Message ''Transfer successful''))"
proof -
  have own: "user_id sender_account = u_id current_user"
    using assms(2) find_Some_holds[of "\<lambda>a. user_id a = u_id current_user"]
    by (simp add: get_account_by_user_id_def)
  have still: "find (\<lambda>a. user_id a = u_id recipient_user)
                 (update_first (\<lambda>a. user_id a = u_id current_user)
                    (\<lambda>_. sender_account\<lparr>balance := balance sender_account + - tr_amount request\<rparr>)
                    (accounts (tables db))) = Some recipient_account"
    using assms(7,8) own
    by (simp add: find_account_update_other get_account_by_user_id_def)
  show ?thesis
    using assms(1-6) still
    by (simp add: internal_transfer_def update_balance_def create_transaction_def commit_def
          get_account_by_user_id_def Let_def)
qed


lemma internal_transfer_effects:
  assumes "wf_db db" and "get_current_user db sub = Inr current_user"
  shows
    "(case internal_transfer now db request current_user of
        (db', Inl failure) \<Rightarrow> db' = db
      | (db', Inr response) \<Rightarrow>
          (\<exists>sender_account recipient_user recipient_account debited.
              get_account_by_user_id db (u_id current_user) = Some sender_account
            \<and> get_user_by_email db (recipient_email request) = Some recipient_user
            \<and> get_account_by_user_id db (u_id recipient_user) = Some recipient_account
            \<and> get_account_by_user_id db' (u_id current_user)
                = Some (sender_account\<lparr>balance := balance sender_account + - tr_amount request\<rparr>)
            \<and> get_account_by_user_id db' (u_id recipient_user)
                = Some (recipient_account\<lparr>balance := balance recipient_account + tr_amount request\<rparr>)
            \<and> transactions (tables db') = transactions (tables db) @
                  [\<lparr>t_id = next_id (map t_id (transactions (tables db))),
                    initiator_user_id = u_id current_user,
                    recipient_user_id = Some (u_id recipient_user),
                    initiator_web3_address = None,
                    recipient_web3_address = None,
                    bank_account_id = None,
                    t_type = ''internal_transfer'',
                    amount = tr_amount request,
                    tx_hash = None,
                    t_status = ''completed'',
                    completed_at = Some now\<rparr>]
            \<and> journal db' = journal db @
                  [Commit debited,
                   Commit ((tables db')\<lparr>transactions := transactions (tables db)\<rparr>),
                   Commit (tables db')]
            \<and> find (\<lambda>a. user_id a = u_id current_user) (accounts debited)
                = Some (sender_account\<lparr>balance := balance sender_account + - tr_amount request\<rparr>)
            \<and> find (\<lambda>a. user_id a = u_id recipient_user) (accounts debited)
                = Some recipient_account))"
proof (cases "snd (internal_transfer now db request current_user)")
  case (Inl failure)
  then show ?thesis
    using internal_transfer_failed[OF Inl] by (simp add: split_beta)
next
  case (Inr response)
  from internal_transfer_passed[OF Inr] obtain sender_account recipient_user where
    active: "u_status current_user = ''active''" and
    sender: "get_account_by_user_id db (u_id current_user) = Some sender_account" and
    funds: "\<not> balance sender_account < tr_amount request" and
    other: "recipient_email request \<noteq> email current_user" and
    recipient: "get_user_by_email db (recipient_email request) = Some recipient_user" and
    verified: "u_status recipient_user = ''active''"
    by blast
  have cu_row: "current_user \<in> set (users (tables db))"
    using get_current_user_row(1)[OF assms(2)] .
  have ru_row: "recipient_user \<in> set (users (tables db))"
    using recipient find_Some_mem[of _ "users (tables db)" recipient_user]
    by (simp add: get_user_by_email_def)
  have ru_email: "email recipient_user = recipient_email request"
    using recipient find_Some_holds[of "\<lambda>u. email u = recipient_email request"]
    by (simp add: get_user_by_email_def)
  have ids: "u_id recipient_user \<noteq> u_id current_user"
  proof
    assume "u_id recipient_user = u_id current_user"
    then have "recipient_user = current_user"
      using same_id_same_user[OF _ ru_row cu_row] assms(1) by (simp add: wf_db_def)
    with ru_email other show False by simp
  qed
  obtain recipient_account where
    racc: "get_account_by_user_id db (u_id recipient_user) = Some recipient_account"
    using assms(1) ru_row by (auto simp add: wf_db_def list_all_iff)
  have own_s: "user_id sender_account = u_id current_user"
    using sender find_Some_holds[of "\<lambda>a. user_id a = u_id current_user"]
    by (simp add: get_account_by_user_id_def)
  have own_r: "user_id recipient_account = u_id recipient_user"
    using racc find_Some_holds[of "\<lambda>a. user_id a = u_id recipient_user"]
    by (simp add: get_account_by_user_id_def)
  note eq = internal_transfer_completed[OF active sender funds other recipient verified racc ids,
              of now]
  have debit: "find (\<lambda>a. user_id a = u_id current_user)
                 (update_first (\<lambda>a. user_id a = u_id current_user)
                    (\<lambda>_. sender_account\<lparr>balance := balance sender_account + - tr_amount request\<rparr>)
                    (accounts (tables db)))
               = Some (sender_account\<lparr>balance := balance sender_account + - tr_amount request\<rparr>)"
    using sender own_s by (simp add: get_account_by_user_id_def find_update_first_same)
  have untouched: "find (\<lambda>a. user_id a = u_id recipient_user)
                 (update_first (\<lambda>a. user_id a = u_id current_user)
                    (\<lambda>_. sender_account\<lparr>balance := balance sender_account + - tr_amount request\<rparr>)
                    (accounts (tables db)))
               = Some recipient_account"
    using racc ids own_s by (simp add: get_account_by_user_id_def find_account_update_other)
  have credit: "find (\<lambda>a. user_id a = u_id recipient_user)
                 (update_first (\<lambda>a. user_id a = u_id recipient_user)
                    (\<lambda>_. recipient_account\<lparr>balance := balance recipient_account + tr_amount request\<rparr>)
                    (update_first (\<lambda>a. user_id a = u_id current_user)
                       (\<lambda>_. sender_account\<lparr>balance := balance sender_account + - tr_amount request\<rparr>)
                       (accounts (tables db))))
               = Some (recipient_account\<lparr>balance := balance recipient_account + tr_amount request\<rparr>)"
    using untouched own_r by (simp add: find_update_first_same)
  have kept: "find (\<lambda>a. user_id a = u_id current_user)
                 (update_first (\<lambda>a. user_id a = u_id recipient_user)
                    (\<lambda>_. recipient_account\<lparr>balance := balance recipient_account + tr_amount request\<rparr>)
                    (update_first (\<lambda>a. user_id a = u_id current_user)
                       (\<lambda>_. sender_account\<lparr>balance := balance sender_account + - tr_amount request\<rparr>)
                       (accounts (tables db))))
               = Some (sender_account\<lparr>balance := balance sender_account + - tr_amount request\<rparr>)"
    using debit ids own_r by (simp add: find_account_update_other)
  show ?thesis
    using sender recipient racc debit untouched credit kept
    by (simp add: eq get_account_by_user_id_def)
qed

lemma wf_db_ledger: "wf_db ledger"
  by (simp add: wf_db_def ledger_def alice_def bob_def carol_def get_account_by_user_id_def
        List.map_filter_simps)

subsection \<open>KYC submission\<close>

lemma card_in_map_filter:
  "x \<in> set ws \<Longrightarrow> identity_card_number x = Some n \<Longrightarrow>
   n \<in> set (List.map_filter identity_card_number ws)"
  by (force simp add: List.map_filter_def)

lemma same_card_same_user:
  assumes "distinct (List.map_filter identity_card_number us)"
    and "u \<in> set us" and "v \<in> set us"
    and "identity_card_number u = Some n" and "identity_card_number v = Some n"
  shows "u = v"
  using assms
proof (induction us)
  case Nil
  then show ?case by simp
next
  case (Cons w ws)
  show ?case
  proof (cases "identity_card_number w")
    case None
    with Cons show ?thesis
      by auto
  next
    case (Some m)
    with Cons.prems have d: "m \<notin> set (List.map_filter identity_card_number ws)"
      and dt: "distinct (List.map_filter identity_card_number ws)"
      by simp_all
    show ?thesis
    proof (cases "u = w")
      case True
      show ?thesis
      proof (cases "v = w")
        case True
        with \<open>u = w\<close> show ?thesis by simp
      next
        case False
        with Cons.prems have "v \<in> set ws" by simp
        from card_in_map_filter[OF this Cons.prems(5)] d Some True Cons.prems(4)
        show ?thesis by simp
      qed
    next
      case False
      with Cons.prems have u_tail: "u \<in> set ws" by simp
      show ?thesis
      proof (cases "v = w")
        case True
        from card_in_map_filter[OF u_tail Cons.prems(4)] d Some True Cons.prems(5)
        show ?thesis by simp
      next
        case False
        with Cons.prems have "v \<in> set ws" by simp
        from Cons.IH[OF dt u_tail this Cons.prems(4,5)] show ?thesis .
      qed
    qed
  qed
qed

lemma get_user_by_id_current:
  assumes "wf_db db" and "current_user \<in> set (users (tables db))"
  shows "get_user_by_id db (u_id current_user) = Some current_user"
proof (cases "get_user_by_id db (u_id current_user)")
  case None
  then show ?thesis
    using assms(2) by (auto simp add: get_user_by_id_def find_None_iff)
next
  case (Some r)
  then have "r \<in> set (users (tables db))" and "u_id r = u_id current_user"
    using find_Some_mem[of _ "users (tables db)" r]
      find_Some_holds[of "\<lambda>u. u_id u = u_id current_user" "users (tables db)" r]
    by (simp_all add: get_user_by_id_def)
  then have "r = current_user"
    using same_id_same_user[of "users (tables db)" r current_user] assms
    by (simp add: wf_db_def)
  with Some show ?thesis by simp
qed

lemma submit_kyc_info_written:
  assumes "get_user_by_id db uid = Some db_user"
    and "\<not> (case find (\<lambda>u. identity_card_number u = Some (kyc_identity_card_number kyc_data))
                   (users (tables db)) of
              None \<Rightarrow> False
            | Some existing \<Rightarrow> u_id existing \<noteq> uid)"
  shows "submit_kyc_info db uid kyc_data =
    (\<lparr>tables = (tables db)\<lparr>users :=
         update_first (\<lambda>u. u_id u = uid)
           (\<lambda>_. db_user\<lparr>full_name := Some (kyc_full_name kyc_data),
                          identity_card_number := Some (kyc_identity_card_number kyc_data),
                          u_status := ''active''\<rparr>)
           (users (tables db))\<rparr>,
       journal = journal db @
         [Commit ((tables db)\<lparr>users :=
            update_first (\<lambda>u. u_id u = uid)
              (\<lambda>_. db_user\<lparr>full_name := Some (kyc_full_name kyc_data),
                             identity_card_number := Some (kyc_identity_card_number kyc_data),
                             u_status := ''active''\<rparr>)
              (users (tables db))\<rparr>)]\<rparr>,
     Inr (Some (db_user\<lparr>full_name := Some (kyc_full_name kyc_data),
                        identity_card_number := Some (kyc_identity_card_number kyc_data),
                        u_status := ''active''\<rparr>)))"
  using assms by (simp add: submit_kyc_info_def commit_def Let_def)

lemma submit_kyc_already_active:
  "u_status current_user = ''active'' \<Longrightarrow>
   submit_kyc db kyc_data current_user
     = (db, Inl (HTTPException 400 ''User is already active.''))"
  by (simp add: submit_kyc_def)

lemma submit_kyc_duplicate:
  assumes "wf_db db" and "current_user \<in> set (users (tables db))"
    and "u_status current_user \<noteq> ''active''"
    and "other \<in> set (users (tables db))"
    and "identity_card_number other = Some (kyc_identity_card_number kyc_data)"
    and "u_id other \<noteq> u_id current_user"
  shows "submit_kyc db kyc_data current_user
           = (db, Inl (HTTPException 400
                         ''Identity card number is already registered by another user.''))"
proof -
  let ?n = "kyc_identity_card_number kyc_data"
  have cur: "get_user_by_id db (u_id current_user) = Some current_user"
    using get_user_by_id_current[OF assms(1,2)] .
  obtain e where
    found: "find (\<lambda>u. identity_card_number u = Some ?n) (users (tables db)) = Some e"
    using assms(4,5)
    by (cases "find (\<lambda>u. identity_card_number u = Some ?n) (users (tables db))")
       (auto simp add: find_None_iff)
  have "e \<in> set (users (tables db))" and "identity_card_number e = Some ?n"
    using found find_Some_mem[of _ "users (tables db)" e]
      find_Some_holds[of "\<lambda>u. identity_card_number u = Some ?n" "users (tables db)" e]
    by simp_all
  then have "e = other"
    using same_card_same_user[of "users (tables db)" e other ?n] assms(1,4,5)
    by (simp add: wf_db_def)
  with assms(6) have "u_id e \<noteq> u_id current_user" by simp
  with assms(3) cur found show ?thesis
    by (simp add: submit_kyc_def submit_kyc_info_def)
qed

lemma submit_kyc_activates:
  assumes "wf_db db" and "current_user \<in> set (users (tables db))"
    and "u_status current_user \<noteq> ''active''"
    and "\<not> (\<exists>other \<in> set (users (tables db)).
               identity_card_number other = Some (kyc_identity_card_number kyc_data)
               \<and> u_id other \<noteq> u_id current_user)"
  shows "snd (submit_kyc db kyc_data current_user)
           = Inr (User_model
                    (current_user\<lparr>full_name := Some (kyc_full_name kyc_data),
                                   identity_card_number := Some (kyc_identity_card_number kyc_data),
                                   u_status := ''active''\<rparr>))"
    and "get_user_by_id (fst (submit_kyc db kyc_data current_user)) (u_id current_user)
           = Some (current_user\<lparr>full_name := Some (kyc_full_name kyc_data),
                                 identity_card_number := Some (kyc_identity_card_number kyc_data),
                                 u_status := ''active''\<rparr>)"
proof -
  let ?n = "kyc_identity_card_number kyc_data"
  have cur: "get_user_by_id db (u_id current_user) = Some current_user"
    using get_user_by_id_current[OF assms(1,2)] .
  have free: "\<not> (case find (\<lambda>u. identity_card_number u = Some ?n) (users (tables db)) of
                    None \<Rightarrow> False
                  | Some existing \<Rightarrow> u_id existing \<noteq> u_id current_user)"
  proof (cases "find (\<lambda>u. identity_card_number u = Some ?n) (users (tables db))")
    case None
    then show ?thesis by simp
  next
    case (Some e)
    then have "e \<in> set (users (tables db))" and "identity_card_number e = Some ?n"
      using find_Some_mem[of _ "users (tables db)" e]
        find_Some_holds[of "\<lambda>u. identity_card_number u = Some ?n" "users (tables db)" e]
      by simp_all
    with assms(4) have "u_id e = u_id current_user" by blast
    with Some show ?thesis by simp
  qed
  note eq = submit_kyc_info_written[OF cur free]
  show "snd (submit_kyc db kyc_data current_user)
          = Inr (User_model
                   (current_user\<lparr>full_name := Some (kyc_full_name kyc_data),
                                  identity_card_number := Some ?n, u_status := ''active''\<rparr>))"
    using assms(3) by (simp add: submit_kyc_def eq)
  show "get_user_by_id (fst (submit_kyc db kyc_data current_user)) (u_id current_user)
          = Some (current_user\<lparr>full_name := Some (kyc_full_name kyc_data),
                                identity_card_number := Some ?n, u_status := ''active''\<rparr>)"
    using assms(3) cur
    by (simp add: submit_kyc_def eq get_user_by_id_def find_update_first_same)
qed

text \<open>
  Claim C7. In a well-formed state, with the current user taken from the token: a user
  who is already active is refused (400) and the session is returned as it was, so KYC
  never activates a user a second time; a user who is not active and submits an identity
  card number held by a user with another id is refused with the duplicate-identity
  error (400) and the session is returned as it was; a user who is not active and
  submits a number that no other user holds gets the full name, the number and the
  status active written to the own row, which is also the answer.
\<close>

theorem submit_kyc_outcome:
  assumes "wf_db db" and "get_current_user db sub = Inr current_user"
  shows
    "(u_status current_user = ''active'' \<longrightarrow>
        submit_kyc db kyc_data current_user
          = (db, Inl (HTTPException 400 ''User is already active.'')))
     \<and> (u_status current_user \<noteq> ''active''
          \<and> (\<exists>other \<in> set (users (tables db)).
                 identity_card_number other = Some (kyc_identity_card_number kyc_data)
                 \<and> u_id other \<noteq> u_id current_user) \<longrightarrow>
        submit_kyc db kyc_data current_user
          = (db, Inl (HTTPException 400
                        ''Identity card number is already registered by another user.'')))
     \<and> (u_status current_user \<noteq> ''active''
          \<and> \<not> (\<exists>other \<in> set (users (tables db)).
                 identity_card_number other = Some (kyc_identity_card_number kyc_data)
                 \<and> u_id other \<noteq> u_id current_user) \<longrightarrow>
        snd (submit_kyc db kyc_data current_user)
          = Inr (User_model
                   (current_user\<lparr>full_name := Some (kyc_full_name kyc_data),
                                  identity_card_number := Some (kyc_identity_card_number kyc_data),
                                  u_status := ''active''\<rparr>))
        \<and> get_user_by_id (fst (submit_kyc db kyc_data current_user)) (u_id current_user)
          = Some (current_user\<lparr>full_name := Some (kyc_full_name kyc_data),
                                identity_card_number := Some (kyc_identity_card_number kyc_data),
                                u_status := ''active''\<rparr>))"
proof -
  note row = get_current_user_row(1)[OF assms(2)]
  show ?thesis
    using submit_kyc_already_active[of current_user db kyc_data]
      submit_kyc_duplicate[OF assms(1) row, of _ kyc_data]
      submit_kyc_activates[OF assms(1) row, of kyc_data]
    by blast
qed


theorem submit_kyc_outcome_witness:
  "wf_db ledger
   \<and> get_current_user ledger (Some ''alice@example.com'') = Inr alice
   \<and> u_status alice = ''active''
   \<and> submit_kyc ledger kyc_carol alice
       = (ledger, Inl (HTTPException 400 ''User is already active.''))
   \<and> get_current_user ledger (Some ''carol@example.com'') = Inr carol
   \<and> u_status carol \<noteq> ''active''
   \<and> alice \<in> set (users (tables ledger))
   \<and> identity_card_number alice = Some (kyc_identity_card_number kyc_taken)
   \<and> u_id alice \<noteq> u_id carol
   \<and> submit_kyc ledger kyc_taken carol
       = (ledger, Inl (HTTPException 400
                         ''Identity card number is already registered by another user.''))
   \<and> snd (submit_kyc ledger kyc_carol carol)
       = Inr (User_model \<lparr>u_id = 3, email = ''carol@example.com'',
                           full_name = Some ''Carol Chan'',
                           identity_card_number = Some ''C777777'',
                           hashed_password = ''h3'', u_status = ''active''\<rparr>)
   \<and> get_user_by_id (fst (submit_kyc ledger kyc_carol carol)) (u_id carol)
       = Some \<lparr>u_id = 3, email = ''carol@example.com'', full_name = Some ''Carol Chan'',
                identity_card_number = Some ''C777777'', hashed_password = ''h3'',
                u_status = ''active''\<rparr>"
proof -
  have auth_a: "get_current_user ledger (Some ''alice@example.com'') = Inr alice"
    by (simp add: get_current_user_def get_user_by_email_def ledger_def alice_def)
  have auth_c: "get_current_user ledger (Some ''carol@example.com'') = Inr carol"
    by (simp add: get_current_user_def get_user_by_email_def ledger_def alice_def bob_def
          carol_def)
  have active: "u_status alice = ''active''"
    by (simp add: alice_def)
  have unverified: "u_status carol \<noteq> ''active''"
    by (simp add: carol_def)
  have holder: "alice \<in> set (users (tables ledger))"
    "identity_card_number alice = Some (kyc_identity_card_number kyc_taken)"
    "u_id alice \<noteq> u_id carol"
    by (simp_all add: ledger_def alice_def carol_def kyc_taken_def)
  have free: "\<not> (\<exists>other \<in> set (users (tables ledger)).
                   identity_card_number other = Some (kyc_identity_card_number kyc_carol)
                   \<and> u_id other \<noteq> u_id carol)"
    by (simp add: ledger_def alice_def bob_def carol_def kyc_carol_def)
  have r1: "submit_kyc ledger kyc_carol alice
              = (ledger, Inl (HTTPException 400 ''User is already active.''))"
    using submit_kyc_outcome[OF wf_db_ledger auth_a, where kyc_data = kyc_carol] active
    by simp
  have r2: "submit_kyc ledger kyc_taken carol
              = (ledger, Inl (HTTPException 400
                                ''Identity card number is already registered by another user.''))"
    using submit_kyc_outcome[OF wf_db_ledger auth_c, where kyc_data = kyc_taken]
      unverified holder
    by blast
  have r3: "snd (submit_kyc ledger kyc_carol carol)
              = Inr (User_model
                       (carol\<lparr>full_name := Some (kyc_full_name kyc_carol),
                              identity_card_number := Some (kyc_identity_card_number kyc_carol),
                              u_status := ''active''\<rparr>))
            \<and> get_user_by_id (fst (submit_kyc ledger kyc_carol carol)) (u_id carol)
              = Some (carol\<lparr>full_name := Some (kyc_full_name kyc_carol),
                             identity_card_number := Some (kyc_identity_card_number kyc_carol),
                             u_status := ''active''\<rparr>)"
    using submit_kyc_outcome[OF wf_db_ledger auth_c, where kyc_data = kyc_carol]
      unverified free
    by blast
  have row: "carol\<lparr>full_name := Some (kyc_full_name kyc_carol),
                    identity_card_number := Some (kyc_identity_card_number kyc_carol),
                    u_status := ''active''\<rparr>
             = \<lparr>u_id = 3, email = ''carol@example.com'', full_name = Some ''Carol Chan'',
                identity_card_number = Some ''C777777'', hashed_password = ''h3'',
                u_status = ''active''\<rparr>"
    by (simp add: carol_def kyc_carol_def)
  show ?thesis
    using wf_db_ledger auth_a auth_c active unverified holder r1 r2 r3
    unfolding row by simp
qed

subsection \<open>Writes that leave the accounts alone\<close>

lemma create_transaction_accounts:
  "accounts (tables (fst (create_transaction db now i ty a st r iw rw h b))) = accounts (tables db)"
  by (simp add: create_transaction_def commit_def Let_def)

lemma submit_kyc_info_accounts:
  "accounts (tables (fst (submit_kyc_info db uid kyc_data))) = accounts (tables db)"
  by (simp add: submit_kyc_info_def commit_def Let_def split: option.splits)

subsection \<open>Well-formed states are kept\<close>

text \<open>
  The empty store is well formed, and registration, KYC submission, the deposits, the
  transfer and the withdrawals lead from well-formed states to well-formed states, so
  the hypothesis \<open>wf_db\<close> of the statements above holds in every state these
  handlers can reach.
\<close>

lemma fold_max_bounds:
  "(a::int) \<le> fold max xs a" "x \<in> set xs \<Longrightarrow> x \<le> fold max xs a"
proof (induction xs arbitrary: a)
  case Nil
  { case 1 show ?case by simp }
  { case 2 then show ?case by simp }
next
  case (Cons y ys)
  { case 1
    have "a \<le> max y a" by simp
    also have "\<dots> \<le> fold max ys (max y a)" by (rule Cons.IH(1))
    finally show ?case by simp }
  { case 2
    show ?case
    proof (cases "x = y")
      case True
      have "y \<le> max y a" by simp
      also have "\<dots> \<le> fold max ys (max y a)" by (rule Cons.IH(1))
      finally show ?thesis using True by simp
    next
      case False
      with 2 have "x \<in> set ys" by simp
      then show ?thesis using Cons.IH(2) by simp
    qed }
qed

lemma next_id_fresh: "next_id ids \<notin> set ids"
  using fold_max_bounds(2)[of "next_id ids" ids 0] by (auto simp add: next_id_def)

lemma find_append_keeps:
  "find p rs \<noteq> None \<Longrightarrow> find p (rs @ extra) \<noteq> None"
  by (induction rs) auto

lemma find_append_new:
  "p r \<Longrightarrow> find p (rs @ [r]) \<noteq> None"
  by (induction rs) auto

lemma map_filter_append_None:
  "f r = None \<Longrightarrow> List.map_filter f (rs @ [r]) = List.map_filter f rs"
  by (simp add: List.map_filter_def)

lemma wf_db_empty: "wf_db empty_db"
  by (simp add: wf_db_def empty_db_def)

lemma wf_db_journal [simp]: "wf_db (db\<lparr>journal := js\<rparr>) = wf_db db"
  by (simp add: wf_db_def get_account_by_user_id_def)

lemma wf_db_commit [simp]: "wf_db (commit db) = wf_db db"
  by (simp add: commit_def)

lemma wf_db_register_user:
  assumes "wf_db db"
  shows "wf_db (fst (register_user get_password_hash db user))"
proof (cases "get_user_by_email db (uc_email user)")
  case (Some u)
  with assms show ?thesis by (simp add: register_user_def)
next
  case None
  then have new_email: "uc_email user \<notin> set (map email (users (tables db)))"
    by (auto simp add: get_user_by_email_def find_None_iff)
  have new_id: "next_id (map u_id (users (tables db))) \<notin> set (map u_id (users (tables db)))"
    by (rule next_id_fresh)
  have old: "find (\<lambda>a. user_id a = u_id u) (accounts (tables db) @ extra) \<noteq> None"
    if "u \<in> set (users (tables db))" for extra u
  proof (rule find_append_keeps)
    from assms that show "find (\<lambda>a. user_id a = u_id u) (accounts (tables db)) \<noteq> None"
      unfolding wf_db_def get_account_by_user_id_def list_all_iff by blast
  qed
  have parts: "distinct (map u_id (users (tables db)))"
    "distinct (map email (users (tables db)))"
    "distinct (List.map_filter identity_card_number (users (tables db)))"
    using assms by (simp_all add: wf_db_def)
  show ?thesis
    using None new_email new_id parts
    by (simp add: register_user_def create_user_def commit_def Let_def wf_db_def
          get_account_by_user_id_def map_filter_append_None find_append_new list_all_iff old
          del: not_None_eq)
qed


lemma map_update_first_same:
  "find p rs = Some r \<Longrightarrow> f r' = f r \<Longrightarrow> map f (update_first p (\<lambda>_. r') rs) = map f rs"
  by (induction rs) (auto split: if_splits)

lemma find_None_update_first:
  "find p rs = Some r \<Longrightarrow> q r' = q r \<Longrightarrow>
   (find q (update_first p (\<lambda>_. r') rs) = None) = (find q rs = None)"
  by (induction rs) (auto split: if_splits)

lemma set_update_first: "set (update_first p (\<lambda>_. r') rs) \<subseteq> insert r' (set rs)"
  by (induction rs) auto

lemma cards_update_first:
  assumes "distinct (List.map_filter identity_card_number us)"
    and "find p us = Some r"
    and "identity_card_number r' = Some n"
    and "\<And>x. x \<in> set us \<Longrightarrow> identity_card_number x = Some n \<Longrightarrow> x = r"
  shows "distinct (List.map_filter identity_card_number (update_first p (\<lambda>_. r') us))"
  using assms
proof (induction us)
  case Nil
  then show ?case by simp
next
  case (Cons w ws)
  have tail: "distinct (List.map_filter identity_card_number ws)"
    using Cons.prems(1) by (cases "identity_card_number w") simp_all
  show ?case
  proof (cases "p w")
    case True
    with Cons.prems(2) have "r = w" by simp
    have "n \<notin> set (List.map_filter identity_card_number ws)"
    proof
      assume "n \<in> set (List.map_filter identity_card_number ws)"
      then obtain x where x: "x \<in> set ws" "identity_card_number x = Some n"
        by (auto simp add: List.map_filter_def)
      with Cons.prems(4)[of x] \<open>r = w\<close> have "identity_card_number w = Some n"
        by simp
      with Cons.prems(1) \<open>n \<in> set (List.map_filter identity_card_number ws)\<close>
      show False by simp
    qed
    with True tail Cons.prems(3) show ?thesis by simp
  next
    case False
    with Cons.prems(2) have found: "find p ws = Some r" by simp
    have only: "x = r" if "x \<in> set ws" "identity_card_number x = Some n" for x
      using that Cons.prems(4)[of x] by simp
    note ih = Cons.IH[OF tail found Cons.prems(3) only]
    show ?thesis
    proof (cases "identity_card_number w")
      case None
      with False ih show ?thesis by simp
    next
      case (Some m)
      with Cons.prems(1) have fresh: "m \<notin> set (List.map_filter identity_card_number ws)"
        by simp
      have r_tail: "r \<in> set ws"
        using found by (rule find_Some_mem)
      have "m \<noteq> n"
      proof
        assume "m = n"
        with Some Cons.prems(4)[of w] have "w = r" by simp
        with r_tail Some fresh card_in_map_filter[of w ws m] show False by simp
      qed
      have "m \<notin> set (List.map_filter identity_card_number (update_first p (\<lambda>_. r') ws))"
      proof
        assume "m \<in> set (List.map_filter identity_card_number (update_first p (\<lambda>_. r') ws))"
        then obtain x where x: "x \<in> set (update_first p (\<lambda>_. r') ws)"
          "identity_card_number x = Some m"
          by (auto simp add: List.map_filter_def)
        with set_update_first[of p r' ws] have "x = r' \<or> x \<in> set ws" by auto
        then show False
        proof
          assume "x = r'"
          with x(2) Cons.prems(3) \<open>m \<noteq> n\<close> show False by simp
        next
          assume "x \<in> set ws"
          with x(2) fresh card_in_map_filter[of x ws m] show False by simp
        qed
      qed
      with False Some ih show ?thesis by simp
    qed
  qed
qed

lemma wf_db_update_balance:
  assumes "wf_db db"
  shows "wf_db (fst (update_balance db uid delta))"
proof (cases "get_account_by_user_id db uid")
  case None
  with assms show ?thesis by (simp add: update_balance_None)
next
  case (Some account)
  then have found: "find (\<lambda>a. user_id a = uid) (accounts (tables db)) = Some account"
    by (simp add: get_account_by_user_id_def)
  show ?thesis
    using assms
    by (simp add: update_balance_Some[OF Some] wf_db_def get_account_by_user_id_def
          find_None_update_first[OF found] del: not_None_eq)
qed

lemma wf_db_create_transaction:
  "wf_db (fst (create_transaction db now i ty a st r iw rw h b)) = wf_db db"
  by (simp add: create_transaction_def Let_def wf_db_def commit_def get_account_by_user_id_def)

lemma wf_db_submit_kyc_info:
  assumes "wf_db db"
  shows "wf_db (fst (submit_kyc_info db uid kyc_data))"
proof (cases "get_user_by_id db uid")
  case None
  with assms show ?thesis by (simp add: submit_kyc_info_def)
next
  case (Some db_user)
  let ?n = "kyc_identity_card_number kyc_data"
  let ?holder = "find (\<lambda>u. identity_card_number u = Some ?n) (users (tables db))"
  let ?u = "db_user\<lparr>full_name := Some (kyc_full_name kyc_data),
                     identity_card_number := Some ?n, u_status := ''active''\<rparr>"
  show ?thesis
  proof (cases "case ?holder of None \<Rightarrow> False | Some existing \<Rightarrow> u_id existing \<noteq> uid")
    case True
    with assms Some show ?thesis by (simp add: submit_kyc_info_def)
  next
    case False
    have found: "find (\<lambda>u. u_id u = uid) (users (tables db)) = Some db_user"
      using Some by (simp add: get_user_by_id_def)
    have row: "db_user \<in> set (users (tables db))" and id: "u_id db_user = uid"
      using found find_Some_mem[of _ "users (tables db)" db_user]
        find_Some_holds[of "\<lambda>u. u_id u = uid" "users (tables db)" db_user]
      by simp_all
    have parts: "distinct (map u_id (users (tables db)))"
      "distinct (map email (users (tables db)))"
      "distinct (List.map_filter identity_card_number (users (tables db)))"
      "list_all (\<lambda>u. find (\<lambda>a. user_id a = u_id u) (accounts (tables db)) \<noteq> None)
         (users (tables db))"
      using assms by (simp_all add: wf_db_def get_account_by_user_id_def del: not_None_eq)
    have only: "x = db_user"
      if "x \<in> set (users (tables db))" "identity_card_number x = Some ?n" for x
    proof -
      from that obtain e where e: "?holder = Some e"
        by (cases ?holder) (auto simp add: find_None_iff)
      then have "e \<in> set (users (tables db))" "identity_card_number e = Some ?n"
        using find_Some_mem[of _ "users (tables db)" e]
          find_Some_holds[of "\<lambda>u. identity_card_number u = Some ?n" "users (tables db)" e]
        by simp_all
      moreover from False e have "u_id e = uid" by simp
      ultimately have "e = db_user"
        using same_id_same_user[OF parts(1) _ row] id by simp
      moreover have "x = e"
        using same_card_same_user[OF parts(3) that(1) \<open>e \<in> set (users (tables db))\<close> that(2)
                \<open>identity_card_number e = Some ?n\<close>] .
      ultimately show ?thesis by simp
    qed
    have ids: "map u_id (update_first (\<lambda>u. u_id u = uid) (\<lambda>_. ?u) (users (tables db)))
                 = map u_id (users (tables db))"
      by (rule map_update_first_same[OF found]) simp
    have emails: "map email (update_first (\<lambda>u. u_id u = uid) (\<lambda>_. ?u) (users (tables db)))
                    = map email (users (tables db))"
      by (rule map_update_first_same[OF found]) simp
    have cards: "distinct (List.map_filter identity_card_number
                   (update_first (\<lambda>u. u_id u = uid) (\<lambda>_. ?u) (users (tables db))))"
      by (rule cards_update_first[OF parts(3) found _ only]) simp_all
    have accts: "list_all (\<lambda>u. find (\<lambda>a. user_id a = u_id u) (accounts (tables db)) \<noteq> None)
                   (update_first (\<lambda>u. u_id u = uid) (\<lambda>_. ?u) (users (tables db)))"
    proof -
      have "list_all (\<lambda>i. find (\<lambda>a. user_id a = i) (accounts (tables db)) \<noteq> None)
              (map u_id (update_first (\<lambda>u. u_id u = uid) (\<lambda>_. ?u) (users (tables db))))"
        using parts(4) unfolding ids by (simp add: list_all_iff del: not_None_eq)
      then show ?thesis
        by (simp add: list_all_iff del: not_None_eq)
    qed
    show ?thesis
      using parts(1,2) cards accts
      by (simp add: submit_kyc_info_written[OF Some False] wf_db_def get_account_by_user_id_def
            ids emails del: not_None_eq)
  qed
qed


lemma wf_db_submit_kyc:
  "wf_db db \<Longrightarrow> wf_db (fst (submit_kyc db kyc_data current_user))"
  using wf_db_submit_kyc_info[of db "u_id current_user" kyc_data]
  by (auto simp add: submit_kyc_def split: prod.splits sum.splits option.splits)

lemma wf_db_confirm_alipay_deposit:
  "wf_db db \<Longrightarrow> wf_db (fst (confirm_alipay_deposit now db request current_user))"
  by (simp add: confirm_alipay_deposit_def Let_def split_beta wf_db_create_transaction
        wf_db_update_balance split: option.splits)

lemma wf_db_confirm_web3_deposit:
  "wf_db db \<Longrightarrow> wf_db (fst (confirm_web3_deposit now db request current_user))"
  by (simp add: confirm_web3_deposit_def Let_def split_beta wf_db_create_transaction
        wf_db_update_balance)

lemma wf_db_internal_transfer:
  "wf_db db \<Longrightarrow> wf_db (fst (internal_transfer now db request current_user))"
  by (simp add: internal_transfer_def Let_def split_beta wf_db_create_transaction
        wf_db_update_balance split: option.splits)

lemma wf_db_withdraw_to_bank:
  "wf_db db \<Longrightarrow> wf_db (fst (withdraw_to_bank now db request current_user))"
  by (simp add: withdraw_to_bank_def Let_def split_beta wf_db_create_transaction
        wf_db_update_balance split: option.splits)

lemma wf_db_withdraw_to_web3:
  "wf_db db \<Longrightarrow> wf_db (fst (withdraw_to_web3 transfer_hkdc now db request current_user))"
  by (simp add: withdraw_to_web3_def Let_def split_beta wf_db_create_transaction
        wf_db_update_balance split: option.splits sum.splits)

end
